theory Spec2Isabelle
  imports Complex_Main "HOL-Library.AList"
begin

section \<open>JavaScript values, objects and errors\<close>

text \<open>
  The server receives JSON and handles it as plain JavaScript values. A number is a
  finite double, hence a rational, or \<open>NaN\<close>; a \<open>Date\<close> holds a time value in
  milliseconds or is invalid (\<open>None\<close>). An object is the list of its own enumerable
  properties in the order \<open>Object.keys\<close> lists them; the keys of an object are distinct.
  Reading a property that is absent gives \<open>undefined\<close>, writing a property replaces the
  value in place or appends the key (\<open>AList.update\<close>), \<open>delete\<close> removes it
  (\<open>AList.delete\<close>). Prototypes are not modelled.
\<close>

datatype jsval =
    JUndefined
  | JNull
  | JBool bool
  | JNum rat
  | JNaN
  | JStr string
  | JDate "int option"
  | JArr "jsval list"
  | JObj "(string \<times> jsval) list"

type_synonym obj = "(string \<times> jsval) list"

text \<open>
  What is thrown: the error classes the server imports, the built-in errors of the
  language and of the DOM, \<open>new Error(message)\<close>, and \<open>UnknownError\<close>, a name the
  session module uses without importing it.
\<close>

datatype error =
    InvalidArgument
  | SessionNotCreated
  | InternalServerError
  | NoSuchWindow
  | UnableToSetCookie
  | TypeError
  | ReferenceError string
  | DOMException
  | SyntaxError
  | XPathException
  | Error string
  | UnknownError

text \<open>\<open>o[k]\<close> on an object.\<close>

definition get :: "obj \<Rightarrow> string \<Rightarrow> jsval" where
  "get ob k = (case map_of ob k of None \<Rightarrow> JUndefined | Some v \<Rightarrow> v)"

text \<open>\<open>Object.prototype.hasOwnProperty.call(o, k)\<close> on an object.\<close>

definition hasOwnProperty :: "obj \<Rightarrow> string \<Rightarrow> bool" where
  "hasOwnProperty ob k = (case map_of ob k of None \<Rightarrow> False | Some v \<Rightarrow> True)"

text \<open>The truthiness of a value, as \<open>if (v)\<close> tests it.\<close>

fun truthy :: "jsval \<Rightarrow> bool" where
  "truthy JUndefined = False"
| "truthy JNull = False"
| "truthy (JBool b) = b"
| "truthy (JNum n) = (n \<noteq> 0)"
| "truthy JNaN = False"
| "truthy (JStr s) = (s \<noteq> [])"
| "truthy (JDate d) = True"
| "truthy (JArr xs) = True"
| "truthy (JObj ob) = True"

text \<open>
  \<open>a === b\<close>. Two objects, arrays or dates are equal only when they are the same
  reference; the values compared here always come from different places, so such a
  comparison is false. \<open>NaN\<close> equals nothing.
\<close>

fun strict_equals :: "jsval \<Rightarrow> jsval \<Rightarrow> bool" where
  "strict_equals JUndefined JUndefined = True"
| "strict_equals JNull JNull = True"
| "strict_equals (JBool a) (JBool b) = (a = b)"
| "strict_equals (JNum a) (JNum b) = (a = b)"
| "strict_equals (JStr a) (JStr b) = (a = b)"
| "strict_equals a b = False"

text \<open>The decimal text of an array index.\<close>

fun digit_char :: "nat \<Rightarrow> char" where
  "digit_char n = char_of (48 + n)"

fun show_nat :: "nat \<Rightarrow> string" where
  "show_nat n = (if n < 10 then [digit_char n] else show_nat (n div 10) @ [digit_char (n mod 10)])"

text \<open>
  The own enumerable properties of any value, as \<open>Object.keys\<close> sees them: those of an
  object, the indices of an array, the indices of a string; a number, a boolean or a
  date has none.
\<close>

fun own_entries :: "jsval \<Rightarrow> obj" where
  "own_entries (JObj ob) = ob"
| "own_entries (JArr xs) = zip (map show_nat [0..<length xs]) xs"
| "own_entries (JStr s) = zip (map show_nat [0..<length s]) (map (\<lambda>c. JStr [c]) s)"
| "own_entries v = []"

text \<open>\<open>Object.keys(v)\<close>: a \<open>TypeError\<close> on \<open>null\<close> and \<open>undefined\<close>.\<close>

fun Object_keys :: "jsval \<Rightarrow> error + string list" where
  "Object_keys JUndefined = Inl TypeError"
| "Object_keys JNull = Inl TypeError"
| "Object_keys v = Inr (map fst (own_entries v))"

text \<open>
  \<open>Object.prototype.hasOwnProperty.call(v, k)\<close> on any value: a \<open>TypeError\<close> on
  \<open>null\<close> and \<open>undefined\<close>; an array and a string also own \<open>length\<close>.
\<close>

fun hasOwnProperty_call :: "jsval \<Rightarrow> string \<Rightarrow> error + bool" where
  "hasOwnProperty_call JUndefined k = Inl TypeError"
| "hasOwnProperty_call JNull k = Inl TypeError"
| "hasOwnProperty_call (JArr xs) k =
     Inr (if k = ''length'' then True else hasOwnProperty (own_entries (JArr xs)) k)"
| "hasOwnProperty_call (JStr s) k =
     Inr (if k = ''length'' then True else hasOwnProperty (own_entries (JStr s)) k)"
| "hasOwnProperty_call v k = Inr (hasOwnProperty (own_entries v) k)"

text \<open>\<open>String.prototype.toLowerCase\<close> on the ASCII letters.\<close>

definition lower_char :: "char \<Rightarrow> char" where
  "lower_char c =
     (let n = (of_char c :: nat) in if 65 \<le> n \<and> n \<le> 90 then char_of (n + 32) else c)"

definition toLowerCase :: "string \<Rightarrow> string" where
  "toLowerCase s = map lower_char s"

section \<open>Session: capability negotiation\<close>

text \<open>
  \<open>CapabilityValidator\<close> is required from another module; its \<open>validate(value, key)\<close>
  is a parameter \<open>validate\<close> of the functions below, and the platform name that
  \<open>os.platform()\<close> reports is the parameter \<open>platform\<close>.
\<close>

definition defaultCapabilities :: "string list" where
  "defaultCapabilities =
     [''acceptInsecureCerts'', ''browserName'', ''browserVersion'', ''platformName'',
      ''pageLoadStrategy'', ''proxy'', ''timeouts'', ''unhandledPromptBehaviour'']"

subsection \<open>mergeCapabilities\<close>

text \<open>The first loop of \<open>mergeCapabilities\<close>: \<open>result[key] = primary[key]\<close> for every key.\<close>

definition copy_primary :: "obj \<Rightarrow> obj" where
  "copy_primary primary =
     fold (\<lambda>key result. AList.update key (get primary key) result) (map fst primary) []"

text \<open>
  The second loop: a key that \<open>primary\<close> owns throws \<open>InvalidArgument\<close>, any other is
  written into \<open>result\<close>.
\<close>

fun merge_secondary :: "obj \<Rightarrow> obj \<Rightarrow> string list \<Rightarrow> obj \<Rightarrow> error + obj" where
  "merge_secondary primary secondary [] result = Inr result"
| "merge_secondary primary secondary (property # ps) result =
     (if hasOwnProperty primary property then Inl InvalidArgument
      else merge_secondary primary secondary ps
             (AList.update property (get secondary property) result))"

text \<open>\<open>secondary\<close> is \<open>None\<close> when the caller passes \<open>undefined\<close>.\<close>

definition mergeCapabilities :: "obj \<Rightarrow> obj option \<Rightarrow> error + obj" where
  "mergeCapabilities primary secondary =
     (case secondary of
        None \<Rightarrow> Inr (copy_primary primary)
      | Some sec \<Rightarrow> merge_secondary primary sec (map fst sec) (copy_primary primary))"

subsection \<open>matchCapabilities\<close>

definition initial_matchedCapabilities :: "string \<Rightarrow> obj" where
  "initial_matchedCapabilities platform =
     [(''browserName'', JStr ''pluma''),
      (''browserVersion'', JStr ''v1.0''),
      (''platformName'', JStr platform),
      (''acceptInsecureCerts'', JBool False),
      (''setWindowRect'', JBool False)]"

text \<open>
  The \<open>switch\<close> on one property of the requested set: the new value of \<open>flag\<close>, or
  the \<open>InvalidArgument\<close> thrown for a truthy \<open>setWindowRect\<close>.
\<close>

definition match_switch :: "obj \<Rightarrow> string \<Rightarrow> obj \<Rightarrow> bool \<Rightarrow> error + bool" where
  "match_switch capabilties property matched flag =
     (if property = ''browserName'' \<or> property = ''platformName''
      then Inr (if strict_equals (get capabilties property) (get matched property)
                then flag else False)
      else if property = ''browserVersion''
      then Inr (if strict_equals (get capabilties property) (get matched property)
                then flag else False)
      else if property = ''setWindowRect''
      then (if truthy (get capabilties property) then Inl InvalidArgument else Inr flag)
      else Inr flag)"

text \<open>
  One round of the \<open>forEach\<close> over the keys of the requested set: the \<open>switch\<close>, then
  the copy into the result while \<open>flag\<close> holds. The state is the pair of \<open>flag\<close> and
  \<open>matchedCapabilities\<close>.
\<close>

definition match_property :: "obj \<Rightarrow> string \<Rightarrow> bool \<times> obj \<Rightarrow> error + (bool \<times> obj)" where
  "match_property capabilties property st =
     (case match_switch capabilties property (snd st) (fst st) of
        Inl e \<Rightarrow> Inl e
      | Inr flag \<Rightarrow>
          Inr (flag, if flag then AList.update property (get capabilties property) (snd st)
                     else snd st))"

fun match_properties :: "obj \<Rightarrow> string list \<Rightarrow> bool \<times> obj \<Rightarrow> error + (bool \<times> obj)" where
  "match_properties capabilties [] st = Inr st"
| "match_properties capabilties (property # ps) st =
     (case match_property capabilties property st of
        Inl e \<Rightarrow> Inl e
      | Inr st' \<Rightarrow> match_properties capabilties ps st')"

text \<open>The result is \<open>None\<close> where the source returns \<open>null\<close>.\<close>

definition matchCapabilities :: "string \<Rightarrow> obj \<Rightarrow> error + obj option" where
  "matchCapabilities platform capabilties =
     (case match_properties capabilties (map fst capabilties)
             (True, initial_matchedCapabilities platform) of
        Inl e \<Rightarrow> Inl e
      | Inr st \<Rightarrow> Inr (if fst st then Some (snd st) else None))"

subsection \<open>processCapabilities\<close>

text \<open>
  The request must own \<open>capabilities\<close>, a plain object (its \<open>constructor\<close> is
  \<open>Object\<close>, which an object with a property of that name of its own does not give)
  that is not empty.
\<close>

definition request_capabilities :: "jsval \<Rightarrow> error + obj" where
  "request_capabilities request =
     (case hasOwnProperty_call request ''capabilities'' of
        Inl e \<Rightarrow> Inl e
      | Inr capabiltiesRequest \<Rightarrow>
          if capabiltiesRequest then
            (case get (own_entries request) ''capabilities'' of
               JUndefined \<Rightarrow> Inl TypeError
             | JNull \<Rightarrow> Inl TypeError
             | JObj capabilities \<Rightarrow>
                 if hasOwnProperty capabilities ''constructor'' then Inl InvalidArgument
                 else if capabilities = [] then Inl InvalidArgument
                 else Inr capabilities
             | _ \<Rightarrow> Inl InvalidArgument)
          else Inl InvalidArgument)"

text \<open>
  The loop over \<open>defaultCapabilities\<close> that validates \<open>alwaysMatch\<close>: a key that
  \<open>alwaysMatch\<close> owns is kept when the validator accepts its value and throws
  \<open>InvalidArgument\<close> otherwise.
\<close>

fun validate_alwaysMatch ::
  "(jsval \<Rightarrow> string \<Rightarrow> bool) \<Rightarrow> jsval \<Rightarrow> string list \<Rightarrow> obj \<Rightarrow> error + obj" where
  "validate_alwaysMatch validate alwaysMatch [] requiredCapabilities = Inr requiredCapabilities"
| "validate_alwaysMatch validate alwaysMatch (key # ks) requiredCapabilities =
     (case hasOwnProperty_call alwaysMatch key of
        Inl e \<Rightarrow> Inl e
      | Inr own \<Rightarrow>
          if own then
            (if validate (get (own_entries alwaysMatch) key) key
             then validate_alwaysMatch validate alwaysMatch ks
                    (AList.update key (get (own_entries alwaysMatch) key) requiredCapabilities)
             else Inl InvalidArgument)
          else validate_alwaysMatch validate alwaysMatch ks requiredCapabilities)"

definition requiredCapabilities_of :: "(jsval \<Rightarrow> string \<Rightarrow> bool) \<Rightarrow> obj \<Rightarrow> error + obj" where
  "requiredCapabilities_of validate capabilities =
     (if get capabilities ''alwaysMatch'' = JUndefined then Inr []
      else validate_alwaysMatch validate (get capabilities ''alwaysMatch'') defaultCapabilities [])"

text \<open>
  \<open>firstMatch\<close>: absent, it is \<open>[{}]\<close>; otherwise the lower-cased name of its
  \<open>constructor\<close> must be \<open>array\<close> and it must not be empty. An object that carries a
  \<open>constructor\<close> property of its own can pass the test of the name; it has no
  \<open>forEach\<close> to call afterwards.
\<close>

definition firstMatch_object :: "obj \<Rightarrow> error + jsval list" where
  "firstMatch_object ob =
     (case map_of ob ''constructor'' of
        None \<Rightarrow> Inl InvalidArgument
      | Some (JObj c) \<Rightarrow>
          (case get c ''name'' of
             JStr name \<Rightarrow>
               if toLowerCase name = ''array''
               then (if strict_equals (get ob ''length'') (JNum 0) then Inl InvalidArgument
                     else Inl TypeError)
               else Inl InvalidArgument
           | _ \<Rightarrow> Inl TypeError)
      | Some _ \<Rightarrow> Inl TypeError)"

definition allMatchedCapabilities_of :: "obj \<Rightarrow> error + jsval list" where
  "allMatchedCapabilities_of capabilities =
     (case get capabilities ''firstMatch'' of
        JUndefined \<Rightarrow> Inr [JObj []]
      | JNull \<Rightarrow> Inl TypeError
      | JArr xs \<Rightarrow> if xs = [] then Inl InvalidArgument else Inr xs
      | JObj ob \<Rightarrow> firstMatch_object ob
      | _ \<Rightarrow> Inl InvalidArgument)"

text \<open>
  The validation of one \<open>firstMatch\<close> entry keeps the keys the validator accepts; there
  is no \<open>else\<close> branch.
\<close>

definition validate_firstMatch_entry ::
  "(jsval \<Rightarrow> string \<Rightarrow> bool) \<Rightarrow> jsval \<Rightarrow> error + obj" where
  "validate_firstMatch_entry validate indexedFirstMatchCapability =
     (case Object_keys indexedFirstMatchCapability of
        Inl e \<Rightarrow> Inl e
      | Inr ks \<Rightarrow>
          Inr (fold (\<lambda>key validatedFirstMatchCapability.
                       if validate (get (own_entries indexedFirstMatchCapability) key) key
                       then AList.update key (get (own_entries indexedFirstMatchCapability) key)
                              validatedFirstMatchCapability
                       else validatedFirstMatchCapability)
                 ks []))"

fun validate_firstMatch :: "(jsval \<Rightarrow> string \<Rightarrow> bool) \<Rightarrow> jsval list \<Rightarrow> error + obj list" where
  "validate_firstMatch validate [] = Inr []"
| "validate_firstMatch validate (entry # entries) =
     (case validate_firstMatch_entry validate entry of
        Inl e \<Rightarrow> Inl e
      | Inr v \<Rightarrow>
          (case validate_firstMatch validate entries of
             Inl e \<Rightarrow> Inl e
           | Inr vs \<Rightarrow> Inr (v # vs)))"

text \<open>The loop that merges every validated entry with the required capabilities.\<close>

fun merge_all :: "obj \<Rightarrow> obj list \<Rightarrow> error + obj list" where
  "merge_all requiredCapabilities [] = Inr []"
| "merge_all requiredCapabilities (firstMatch # rest) =
     (case mergeCapabilities requiredCapabilities (Some firstMatch) of
        Inl e \<Rightarrow> Inl e
      | Inr merged \<Rightarrow>
          (case merge_all requiredCapabilities rest of
             Inl e \<Rightarrow> Inl e
           | Inr ms \<Rightarrow> Inr (merged # ms)))"

text \<open>Everything \<open>processCapabilities\<close> does before it matches: \<open>mergedCapabilities\<close>.\<close>

definition mergedCapabilities_of ::
  "(jsval \<Rightarrow> string \<Rightarrow> bool) \<Rightarrow> jsval \<Rightarrow> error + obj list" where
  "mergedCapabilities_of validate request =
     (case request_capabilities request of
        Inl e \<Rightarrow> Inl e
      | Inr capabilities \<Rightarrow>
          (case requiredCapabilities_of validate capabilities of
             Inl e \<Rightarrow> Inl e
           | Inr requiredCapabilities \<Rightarrow>
               (case allMatchedCapabilities_of capabilities of
                  Inl e \<Rightarrow> Inl e
                | Inr allMatchedCapabilities \<Rightarrow>
                    (case validate_firstMatch validate allMatchedCapabilities of
                       Inl e \<Rightarrow> Inl e
                     | Inr validatedFirstMatchCapabilties \<Rightarrow>
                         merge_all requiredCapabilities validatedFirstMatchCapabilties))))"

text \<open>
  The last loop: \<open>matchedCapabilities\<close> (\<open>None\<close> while it is \<open>undefined\<close>) is
  overwritten by every round, and a round whose match is \<open>null\<close> throws
  \<open>SessionNotCreated\<close>.
\<close>

fun match_all :: "string \<Rightarrow> obj list \<Rightarrow> obj option \<Rightarrow> error + obj option" where
  "match_all platform [] matchedCapabilities = Inr matchedCapabilities"
| "match_all platform (capabilites # rest) matchedCapabilities =
     (case matchCapabilities platform capabilites of
        Inl e \<Rightarrow> Inl e
      | Inr None \<Rightarrow> Inl SessionNotCreated
      | Inr (Some m) \<Rightarrow> match_all platform rest (Some m))"

definition processCapabilities ::
  "(jsval \<Rightarrow> string \<Rightarrow> bool) \<Rightarrow> string \<Rightarrow> jsval \<Rightarrow> error + obj option" where
  "processCapabilities validate platform request =
     (case mergedCapabilities_of validate request of
        Inl e \<Rightarrow> Inl e
      | Inr mergedCapabilities \<Rightarrow> match_all platform mergedCapabilities None)"

section \<open>The JavaScript engine\<close>

text \<open>
  What the functions below need of the engine that runs them: which free identifiers of
  a module name a global (\<open>defined\<close>), what \<open>Date.parse\<close> makes of a text (the time
  value, \<open>None\<close> for an invalid date; outside the ISO format the result is the
  engine's choice), and the text of a value (\<open>ToString\<close>).
\<close>

record engine =
  defined :: "string \<Rightarrow> bool"
  Date_parse :: "string \<Rightarrow> int option"
  ToString :: "jsval \<Rightarrow> string"

text \<open>Rounding towards zero, and the largest time value of a \<open>Date\<close>.\<close>

definition truncate_rat :: "rat \<Rightarrow> int" where
  "truncate_rat n = (if 0 \<le> n then \<lfloor>n\<rfloor> else \<lceil>n\<rceil>)"

definition time_clip :: "rat \<Rightarrow> int option" where
  "time_clip n = (if \<bar>n\<bar> \<le> 8640000000000000 then Some (truncate_rat n) else None)"

text \<open>The time value of \<open>new Date(v)\<close>; \<open>new Date(undefined)\<close> is an invalid date.\<close>

fun new_Date :: "engine \<Rightarrow> jsval \<Rightarrow> int option" where
  "new_Date eng JUndefined = None"
| "new_Date eng JNull = Some 0"
| "new_Date eng (JBool b) = Some (if b then 1 else 0)"
| "new_Date eng (JNum n) = time_clip n"
| "new_Date eng JNaN = None"
| "new_Date eng (JStr s) = Date_parse eng s"
| "new_Date eng (JDate d) = d"
| "new_Date eng v = Date_parse eng (ToString eng v)"

text \<open>\<open>date.getTime()\<close>: the time value as a number, \<open>NaN\<close> for an invalid date.\<close>

definition getTime :: "int option \<Rightarrow> jsval" where
  "getTime d = (case d of None \<Rightarrow> JNaN | Some t \<Rightarrow> JNum (of_int t))"

section \<open>Session: timeouts\<close>

text \<open>
  The state of a session that the functions below read or write: its timeouts and the
  known elements of its browser.
\<close>

record 'w session =
  timeouts :: obj
  knownElements :: "'w list"

text \<open>The timeouts the constructor sets.\<close>

definition constructor_timeouts :: obj where
  "constructor_timeouts =
     [(''implicit'', JNum 0), (''pageLoad'', JNum 30000), (''script'', JNum 3000)]"

text \<open>
  The first loop of \<open>setTimeouts\<close>: every key is validated, and the first key that
  fails throws. \<open>validateTimeouts(key, value)\<close> of the \<open>CapabilityValidator\<close> is the
  parameter \<open>validateTimeouts\<close>.
\<close>

fun validate_timeouts :: "(string \<Rightarrow> jsval \<Rightarrow> bool) \<Rightarrow> obj \<Rightarrow> string list \<Rightarrow> error option" where
  "validate_timeouts validateTimeouts ts [] = None"
| "validate_timeouts validateTimeouts ts (key # ks) =
     (if validateTimeouts key (get ts key) then validate_timeouts validateTimeouts ts ks
      else Some InvalidArgument)"

text \<open>The second loop: \<open>this.timeouts[validTimeout] = timeouts[validTimeout]\<close>.\<close>

definition apply_timeouts :: "obj \<Rightarrow> string list \<Rightarrow> obj \<Rightarrow> obj" where
  "apply_timeouts ts ks current =
     fold (\<lambda>validTimeout cur. AList.update validTimeout (get ts validTimeout) cur) ks current"

text \<open>
  \<open>setTimeouts\<close> returns what it threw, if anything, and the session as the call leaves
  it.
\<close>

definition setTimeouts ::
  "(string \<Rightarrow> jsval \<Rightarrow> bool) \<Rightarrow> 'w session \<Rightarrow> jsval \<Rightarrow> error option \<times> 'w session" where
  "setTimeouts validateTimeouts s ts =
     (case Object_keys ts of
        Inl e \<Rightarrow> (Some e, s)
      | Inr ks \<Rightarrow>
          (case validate_timeouts validateTimeouts (own_entries ts) ks of
             Some e \<Rightarrow> (Some e, s)
           | None \<Rightarrow> (None, s\<lparr>timeouts := apply_timeouts (own_entries ts) ks (timeouts s)\<rparr>)))"

text \<open>
  Modelled from the spec: \<open>CapabilityValidator.validateTimeouts\<close> is not among the
  sources. The spec (4.2) asks of every present field that it be an integer in
  \<open>[0, 2^53 - 1]\<close>.
\<close>

definition validateTimeouts_spec :: "string \<Rightarrow> jsval \<Rightarrow> bool" where
  "validateTimeouts_spec key v =
     (case v of
        JNum n \<Rightarrow> n = of_int \<lfloor>n\<rfloor> \<and> 0 \<le> n \<and> n \<le> 9007199254740991
      | _ \<Rightarrow> False)"

section \<open>Session: element retrieval\<close>

text \<open>
  The document is outside the session: \<open>startNode.querySelectorAll\<close>,
  \<open>startNode.getElementsByTagName\<close> and \<open>element.innerHTML\<close> are parameters. A query
  runs on the document as it is at that moment (\<open>'doc\<close>) and returns the elements found
  or throws.
\<close>

record ('doc, 'el) dom =
  querySelectorAll :: "'doc \<Rightarrow> string \<Rightarrow> error + 'el list"
  getElementsByTagName :: "'doc \<Rightarrow> string \<Rightarrow> error + 'el list"
  innerHTML :: "'el \<Rightarrow> string"

text \<open>
  The variable \<open>elements\<close>: \<open>undefined\<close> until a strategy assigns it, the
  \<open>NodeList\<close> that \<open>querySelectorAll\<close> returned, the \<open>HTMLCollection\<close> that
  \<open>getElementsByTagName\<close> returned (it has a \<open>length\<close> and no \<open>forEach\<close>), or the
  array \<open>result\<close> of \<open>elementRetrieval\<close> itself.
\<close>

datatype 'el elements =
    Undefined_elements
  | NodeList "'el list"
  | HTMLCollection "'el list"
  | Result_array

text \<open>\<open>String.prototype.trim\<close> (the ASCII white space) and \<open>String.prototype.includes\<close>.\<close>

definition is_space :: "char \<Rightarrow> bool" where
  "is_space c = (c \<in> set [CHR 0x09, CHR 0x0A, CHR 0x0B, CHR 0x0C, CHR 0x0D, CHR 0x20])"

definition trim :: "string \<Rightarrow> string" where
  "trim s = rev (dropWhile is_space (rev (dropWhile is_space s)))"

fun js_includes :: "string \<Rightarrow> string \<Rightarrow> bool" where
  "js_includes [] s = (s = [])"
| "js_includes (c # cs) s = (if take (length s) (c # cs) = s then True else js_includes cs s)"

text \<open>
  \<open>linkTextSelector\<close> collects the matching anchors in \<open>strategyResult\<close> and returns
  \<open>result\<close>.
\<close>

definition linkTextSelector ::
  "('doc, 'el) dom \<Rightarrow> 'doc \<Rightarrow> string \<Rightarrow> bool \<Rightarrow> error + 'el elements" where
  "linkTextSelector d doc selector partial =
     (case querySelectorAll d doc ''a'' of
        Inl e \<Rightarrow> Inl e
      | Inr linkElements \<Rightarrow>
          (let strategyResult =
                 filter (\<lambda>element.
                           let renderedText = innerHTML d element in
                           if \<not> partial \<and> trim renderedText = selector then True
                           else if partial \<and> js_includes renderedText selector then True
                           else False)
                   linkElements
           in Inr Result_array))"

text \<open>The \<open>switch\<close> on the strategy; \<open>xpath\<close> leaves \<open>elements\<close> as it was.\<close>

definition run_strategy ::
  "('doc, 'el) dom \<Rightarrow> 'doc \<Rightarrow> string \<Rightarrow> string \<Rightarrow> 'el elements \<Rightarrow> error + 'el elements" where
  "run_strategy d doc strategy selector elements =
     (if strategy = ''css selector'' then
        (case querySelectorAll d doc selector of Inl e \<Rightarrow> Inl e | Inr es \<Rightarrow> Inr (NodeList es))
      else if strategy = ''link text'' then linkTextSelector d doc selector False
      else if strategy = ''partial link text'' then linkTextSelector d doc selector True
      else if strategy = ''tag name'' then
        (case getElementsByTagName d doc selector of
           Inl e \<Rightarrow> Inl e
         | Inr es \<Rightarrow> Inr (HTMLCollection es))
      else if strategy = ''xpath'' then Inr elements
      else Inl InvalidArgument)"

text \<open>
  The \<open>catch\<close> block, which receives whatever the \<open>try\<close> threw. It names
  \<open>DOMException\<close>, \<open>XPathException\<close> and \<open>UnknownError\<close>, none of which the module
  declares: evaluating a name that is no global either throws a \<open>ReferenceError\<close>.
\<close>

definition catch_block :: "engine \<Rightarrow> error \<Rightarrow> error" where
  "catch_block eng err =
     (if defined eng ''DOMException'' then
        (if err = DOMException then Error ''invalid selector''
         else if err = SyntaxError then Error ''invalid selector''
         else if defined eng ''XPathException'' then
           (if err = XPathException then Error ''invalid selector''
            else if defined eng ''UnknownError'' then UnknownError
            else ReferenceError ''UnknownError'')
         else ReferenceError ''XPathException'')
      else ReferenceError ''DOMException'')"

text \<open>\<open>elements.length\<close>; \<open>result\<close> is still empty while the loop runs.\<close>

fun elements_length :: "'el elements \<Rightarrow> error + nat" where
  "elements_length Undefined_elements = Inl TypeError"
| "elements_length (NodeList es) = Inr (length es)"
| "elements_length (HTMLCollection es) = Inr (length es)"
| "elements_length Result_array = Inr 0"

text \<open>\<open>endTime > new Date()\<close>: a comparison with an invalid date is false.\<close>

definition date_greater :: "int option \<Rightarrow> int \<Rightarrow> bool" where
  "date_greater endTime now = (case endTime of None \<Rightarrow> False | Some t \<Rightarrow> now < t)"

text \<open>
  The \<open>do ... while\<close> loop. Every round runs the strategy on the document of that
  moment and then reads the clock: the rounds to come are the list of these pairs,
  and no result (\<open>None\<close>) comes out when the list is used up. The count is the number
  of rounds run.
\<close>

fun retrieval_loop ::
  "engine \<Rightarrow> ('doc, 'el) dom \<Rightarrow> int option \<Rightarrow> string \<Rightarrow> string \<Rightarrow> ('doc \<times> int) list \<Rightarrow>
   'el elements \<Rightarrow> nat \<Rightarrow> (error + 'el elements) option \<times> nat" where
  "retrieval_loop eng d endTime strategy selector [] elements n = (None, n)"
| "retrieval_loop eng d endTime strategy selector ((doc, now) # rounds) elements n =
     (case run_strategy d doc strategy selector elements of
        Inl err \<Rightarrow> (Some (Inl (catch_block eng err)), Suc n)
      | Inr elements' \<Rightarrow>
          if date_greater endTime now then
            (case elements_length elements' of
               Inl err \<Rightarrow> (Some (Inl err), Suc n)
             | Inr len \<Rightarrow>
                 if len < 1
                 then retrieval_loop eng d endTime strategy selector rounds elements' (Suc n)
                 else (Some (Inr elements'), Suc n))
          else (Some (Inr elements'), Suc n))"

text \<open>
  \<open>new Date().getTime\<close> is the method, not a call of it: \<open>+\<close> joins the text of the
  function and the text of the timeout, and \<open>new Date\<close> parses the joined text.
\<close>

definition getTime_text :: string where
  "getTime_text = ''function getTime() { [native code] }''"

definition endTime_of :: "engine \<Rightarrow> jsval \<Rightarrow> int option" where
  "endTime_of eng implicit = new_Date eng (JStr (getTime_text @ ToString eng implicit))"

text \<open>
  The final \<open>elements.forEach\<close> wraps every element found (\<open>new WebElement\<close>, the
  parameter \<open>WebElement\<close>) and records it. Calling \<open>forEach\<close> on \<open>undefined\<close> or on
  a collection without that method throws. When \<open>elements\<close> is \<open>result\<close> itself the
  loop runs over the entries \<open>result\<close> holds when it starts, which are none.
\<close>

definition collect_elements ::
  "('el \<Rightarrow> 'w) \<Rightarrow> 'w session \<Rightarrow> 'el elements \<Rightarrow> error + ('w list \<times> 'w session)" where
  "collect_elements WebElement s elements =
     (case elements of
        Undefined_elements \<Rightarrow> Inl TypeError
      | NodeList es \<Rightarrow>
          Inr (map WebElement es,
               s\<lparr>knownElements := knownElements s @ map WebElement es\<rparr>)
      | HTMLCollection es \<Rightarrow> Inl TypeError
      | Result_array \<Rightarrow> Inr ([], s))"

text \<open>
  \<open>elementRetrieval\<close>: the outcome (\<open>None\<close> while the loop has not ended within the
  rounds given) and the number of rounds run.
\<close>

definition elementRetrieval ::
  "engine \<Rightarrow> ('doc, 'el) dom \<Rightarrow> ('el \<Rightarrow> 'w) \<Rightarrow> 'w session \<Rightarrow> ('doc \<times> int) list \<Rightarrow>
   string \<Rightarrow> string \<Rightarrow> (error + ('w list \<times> 'w session)) option \<times> nat" where
  "elementRetrieval eng d WebElement s rounds strategy selector =
     (let endTime = endTime_of eng (get (timeouts s) ''implicit'') in
      case retrieval_loop eng d endTime strategy selector rounds Undefined_elements 0 of
        (None, n) \<Rightarrow> (None, n)
      | (Some (Inl err), n) \<Rightarrow> (Some (Inl err), n)
      | (Some (Inr elements), n) \<Rightarrow> (Some (collect_elements WebElement s elements), n))"

section \<open>Browser\<close>

subsection \<open>The constructor\<close>

definition browserOptions_default :: obj where
  "browserOptions_default =
     [(''runScripts'', JStr []),
      (''strictSSL'', JBool True),
      (''unhandledPromptBehaviour'', JStr ''dismiss and notify''),
      (''rejectPublicSuffixes'', JBool False)]"

text \<open>
  The loop of the constructor over \<open>Object.keys(browserOptions)\<close>; the result is the
  \<open>browserOptions\<close> handed to \<open>new BrowserConfig\<close>. Reading a property of \<open>null\<close> or
  \<open>undefined\<close> throws.
\<close>

definition Browser_browserOptions :: "jsval \<Rightarrow> error + obj" where
  "Browser_browserOptions capabilities =
     (if capabilities = JUndefined then Inl TypeError
      else if capabilities = JNull then Inl TypeError
      else Inr (fold (\<lambda>option browserOptions.
                        if truthy (get (own_entries capabilities) option)
                        then AList.update option (get (own_entries capabilities) option)
                               browserOptions
                        else browserOptions)
                  (map fst browserOptions_default) browserOptions_default))"

subsection \<open>CookieValidator\<close>

text \<open>
  Modelled from the spec: \<open>isString\<close> comes from the utilities, which are not among the
  sources. The spec (3) asks that name and value be strings.
\<close>

fun isString :: "jsval \<Rightarrow> bool" where
  "isString (JStr s) = True"
| "isString v = False"

text \<open>
  Modelled from the spec: \<open>isBoolean\<close> comes from the utilities, which are not among the
  sources. The spec (3) asks that secure and httpOnly be booleans.
\<close>

fun isBoolean :: "jsval \<Rightarrow> bool" where
  "isBoolean (JBool b) = True"
| "isBoolean v = False"

definition isValidName :: "jsval \<Rightarrow> bool" where
  "isValidName name = (isString name \<and> name \<noteq> JStr [])"

definition isValidValue :: "jsval \<Rightarrow> bool" where
  "isValidValue v = isString v"

definition isValidSecure :: "jsval \<Rightarrow> bool" where
  "isValidSecure secure = (secure = JUndefined \<or> isBoolean secure)"

definition isValidHttpOnly :: "jsval \<Rightarrow> bool" where
  "isValidHttpOnly httpOnly = (httpOnly = JUndefined \<or> isBoolean httpOnly)"

text \<open>\<open>Number.isInteger\<close> and \<open>Number.MAX_SAFE_INTEGER\<close>.\<close>

fun isInteger :: "jsval \<Rightarrow> bool" where
  "isInteger (JNum n) = (n = of_int \<lfloor>n\<rfloor>)"
| "isInteger v = False"

definition MAX_SAFE_INTEGER :: rat where
  "MAX_SAFE_INTEGER = 9007199254740991"

text \<open>\<open>expiry >= 0 && expiry <= MAX_SAFE_INTEGER\<close>, reached for an integer only.\<close>

fun in_expiry_range :: "jsval \<Rightarrow> bool" where
  "in_expiry_range (JNum n) = (0 \<le> n \<and> n \<le> MAX_SAFE_INTEGER)"
| "in_expiry_range v = False"

definition isValidExpiry :: "jsval \<Rightarrow> bool" where
  "isValidExpiry expiry =
     (expiry = JUndefined \<or> (isInteger expiry \<and> in_expiry_range expiry))"

definition isValidCookie :: "obj \<Rightarrow> bool" where
  "isValidCookie cookie =
     (let name = get cookie ''name''; val = get cookie ''value'';
          httpOnly = get cookie ''httpOnly''; secure = get cookie ''secure'';
          expiry = get cookie ''expiry''
      in if isValidName name \<and> isValidValue val
         then isValidHttpOnly httpOnly \<and> isValidSecure secure \<and> isValidExpiry expiry
         else False)"

subsection \<open>addCookie\<close>

text \<open>
  The cookie jar and its \<open>Cookie\<close> class (\<open>jsdom_extensions/tough-cookie\<close>) are not
  among the sources. The spec (4.5) has \<open>addCookie\<close> write to the jar and \<open>getCookies\<close>
  serialise the entire jar, whose cookies carry an internal key field, an expiration and
  bookkeeping fields such as the creation time, and it identifies a stored cookie by its
  domain, path and name. The jar is the list of the cookies stored, each as the jar
  serialises it.
\<close>

text \<open>
  Modelled from the spec: \<open>new Cookie(options)\<close> of the jar, not among the sources. The
  cookie keeps the fields it is given and gets the bookkeeping field \<open>creation\<close>.
\<close>

definition Cookie_new :: "jsval \<Rightarrow> obj \<Rightarrow> obj" where
  "Cookie_new creation options = AList.update ''creation'' creation options"

text \<open>
  Modelled from the spec: the identity of a stored cookie, its domain, path and key.
\<close>

definition same_cookie :: "obj \<Rightarrow> obj \<Rightarrow> bool" where
  "same_cookie a b =
     (get a ''domain'' = get b ''domain'' \<and> get a ''path'' = get b ''path''
      \<and> get a ''key'' = get b ''key'')"

text \<open>
  Modelled from the spec: \<open>store.putCookie\<close> of the jar, not among the sources. The
  cookie is stored in place of a stored cookie with the same identity.
\<close>

definition putCookie :: "obj list \<Rightarrow> obj \<Rightarrow> obj list" where
  "putCookie jar cookie =
     filter (\<lambda>c. if same_cookie c cookie then False else True) jar @ [cookie]"

text \<open>
  The state of the browser that the cookie functions read or write: whether
  \<open>this.dom.window\<close> is there, the URL of the document, and the cookie jar.
\<close>

record browser =
  window_open :: bool
  url :: string
  cookieJar :: "obj list"

definition createCookieJarOptions :: "obj \<Rightarrow> string \<Rightarrow> obj" where
  "createCookieJarOptions cookie activeDomain =
     (let OPTIONAL_FIELD_DEFAULTS =
            [(''domain'', JStr activeDomain),
             (''path'', JStr ''/''),
             (''secure'', JBool False),
             (''httpOnly'', JBool False)]
      in fold (\<lambda>key options. AList.update key (get cookie key) options) (map fst cookie)
           OPTIONAL_FIELD_DEFAULTS)"

text \<open>\<open>s.replace(/^\\./, '')\<close>.\<close>

fun remove_dot_prefix :: "string \<Rightarrow> string" where
  "remove_dot_prefix [] = []"
| "remove_dot_prefix (c # cs) = (if c = CHR ''.'' then cs else c # cs)"

text \<open>
  \<open>cloneCookieWithoutDomainDotPrefix\<close>: the spread copies the cookie, then \<open>domain\<close> is
  written. Only a string has \<open>replace\<close>.
\<close>

definition cloneCookieWithoutDomainDotPrefix :: "obj \<Rightarrow> error + obj" where
  "cloneCookieWithoutDomainDotPrefix cookie =
     (case get cookie ''domain'' of
        JStr s \<Rightarrow> Inr (AList.update ''domain'' (JStr (remove_dot_prefix s)) cookie)
      | _ \<Rightarrow> Inl TypeError)"

text \<open>
  \<open>isCookieDomainDotPrefixed\<close>: \<open>cookie.domain && cookie.domain.charAt(0) === '.'\<close>.
  A falsy domain ends the test; only a string has \<open>charAt\<close>.
\<close>

definition isCookieDomainDotPrefixed :: "obj \<Rightarrow> error + bool" where
  "isCookieDomainDotPrefixed cookie =
     (if truthy (get cookie ''domain'') then
        (case get cookie ''domain'' of
           JStr s \<Rightarrow> Inr (take 1 s = ''.'')
         | _ \<Rightarrow> Inl TypeError)
      else Inr False)"

definition isValidScheme :: "string \<Rightarrow> bool" where
  "isValidScheme scheme = (scheme \<in> set [''http'', ''https'', ''ftp'', ''about''])"

text \<open>\<open>activeUrl.substr(0, activeUrl.indexOf(':'))\<close>: empty when there is no colon.\<close>

definition scheme_of :: "string \<Rightarrow> string" where
  "scheme_of activeUrl =
     (if CHR '':'' \<in> set activeUrl then takeWhile (\<lambda>c. c \<noteq> CHR '':'') activeUrl else [])"

text \<open>
  The object handed to \<open>new Cookie\<close>: \<open>key\<close>, then the spread of the array that holds
  the expiry date when there is one (an array spreads into the property \<open>0\<close>), then the
  remaining fields.
\<close>

definition cookie_options :: "engine \<Rightarrow> obj \<Rightarrow> obj" where
  "cookie_options eng options =
     (let key = get options ''name'';
          expires = get options ''expiry'';
          remainingFields = AList.delete ''expiry'' (AList.delete ''name'' options)
      in fold (\<lambda>field ob. AList.update field (get remainingFields field) ob)
           (map fst remainingFields)
           ((''key'', key) #
            (if truthy expires then [(''0'', JDate (new_Date eng expires))] else [])))"

text \<open>
  \<open>addCookie\<close>. \<open>Utils.extractDomainFromUrl\<close> is the parameter \<open>extractDomainFromUrl\<close>,
  and \<open>creation\<close> is the creation time the jar gives the cookie.
\<close>

definition addCookie ::
  "engine \<Rightarrow> (string \<Rightarrow> string) \<Rightarrow> jsval \<Rightarrow> browser \<Rightarrow> obj \<Rightarrow> error + browser" where
  "addCookie eng extractDomainFromUrl creation b cookie =
     (if window_open b then
        (let activeUrl = url b;
             activeDomain = extractDomainFromUrl activeUrl;
             scheme = scheme_of activeUrl
         in if isValidScheme scheme then
              (case isCookieDomainDotPrefixed cookie of
                 Inl e \<Rightarrow> Inl e
               | Inr dotted \<Rightarrow>
                   (case (if dotted then cloneCookieWithoutDomainDotPrefix cookie
                          else Inr cookie) of
                      Inl e \<Rightarrow> Inl e
                    | Inr shallowClonedCookie \<Rightarrow>
                        if isValidCookie shallowClonedCookie then
                          Inr (b\<lparr>cookieJar :=
                                   putCookie (cookieJar b)
                                     (Cookie_new creation
                                        (cookie_options eng
                                           (createCookieJarOptions shallowClonedCookie
                                              activeDomain)))\<rparr>)
                        else Inl InvalidArgument))
            else Inl InvalidArgument)
      else Inl NoSuchWindow)"

subsection \<open>getCookies\<close>

text \<open>
  One key of a serialised cookie: \<open>key\<close> is stored as \<open>name\<close>; for \<open>expires\<close> the date
  is built from \<open>currentCookie[key]\<close> and its time stored as \<open>expiry\<close>; any other key is
  copied.
\<close>

definition convert_key :: "engine \<Rightarrow> obj \<Rightarrow> string \<Rightarrow> obj \<Rightarrow> obj" where
  "convert_key eng cookie key currentCookie =
     (if key = ''key'' then AList.update ''name'' (get cookie key) currentCookie
      else if key = ''expires'' then
        (let seconds = getTime (new_Date eng (get currentCookie key))
         in AList.update ''expiry'' seconds currentCookie)
      else AList.update key (get cookie key) currentCookie)"

definition convert_cookie :: "engine \<Rightarrow> obj \<Rightarrow> obj" where
  "convert_cookie eng cookie =
     AList.delete ''creation''
       (fold (convert_key eng cookie) (map fst cookie)
          [(''name'', JStr []), (''value'', JStr [])])"

text \<open>
  \<open>getCookies\<close> on the serialised jar, or on the error the serialisation reports.
\<close>

definition getCookies :: "engine \<Rightarrow> error + obj list \<Rightarrow> error + obj list" where
  "getCookies eng serialized =
     (case serialized of
        Inl err \<Rightarrow> Inl err
      | Inr cookies \<Rightarrow> Inr (map (convert_cookie eng) cookies))"

section \<open>Verification\<close>

subsection \<open>Objects, and mergeCapabilities (C4)\<close>

lemma hasOwnProperty_iff: "hasOwnProperty ob k \<longleftrightarrow> k \<in> fst ` set ob"
proof -
  have "hasOwnProperty ob k \<longleftrightarrow> k \<in> dom (map_of ob)"
    by (simp add: hasOwnProperty_def domIff split: option.splits)
  then show ?thesis by (simp add: dom_map_of_conv_image_fst)
qed

lemma update_fresh: "k \<notin> fst ` set al \<Longrightarrow> AList.update k v al = al @ [(k, v)]"
  by (induction al) auto

lemma get_distinct: "distinct (map fst ob) \<Longrightarrow> (k, v) \<in> set ob \<Longrightarrow> get ob k = v"
  by (simp add: get_def)

lemma fold_update_append:
  "distinct (map fst acc @ map fst B) \<Longrightarrow> (\<forall>(k, v) \<in> set B. get X k = v) \<Longrightarrow>
   fold (\<lambda>key r. AList.update key (get X key) r) (map fst B) acc = acc @ B"
proof (induction B arbitrary: acc)
  case Nil
  then show ?case by simp
next
  case (Cons b B)
  obtain k v where b: "b = (k, v)" by (cases b)
  from Cons.prems b have fresh: "k \<notin> fst ` set acc" by auto
  from Cons.prems b have gv: "get X k = v" by auto
  have step: "AList.update k (get X k) acc = acc @ [(k, v)]"
    using fresh gv by (simp add: update_fresh)
  have d: "distinct (map fst (acc @ [(k, v)]) @ map fst B)"
    using Cons.prems b by auto
  have "fold (\<lambda>key r. AList.update key (get X key) r) (map fst B) (acc @ [(k, v)]) = (acc @ [(k, v)]) @ B"
    using Cons.IH [OF d] Cons.prems by simp
  then show ?case using step b by simp
qed

lemma copy_primary_distinct:
  assumes "distinct (map fst A)"
  shows "copy_primary A = A"
proof -
  have d: "distinct (map fst [] @ map fst A)" using assms by simp
  have g: "\<forall>(k, v) \<in> set A. get A k = v" using assms by (auto simp: get_distinct)
  show ?thesis
    unfolding copy_primary_def using fold_update_append [OF d g] by simp
qed

lemma merge_secondary_overlap:
  "\<exists>k \<in> set ks. hasOwnProperty A k \<Longrightarrow> merge_secondary A F ks r = Inl InvalidArgument"
  by (induction ks arbitrary: r) auto

lemma merge_secondary_disjoint:
  "\<forall>k \<in> set ks. \<not> hasOwnProperty A k \<Longrightarrow>
   merge_secondary A F ks r = Inr (fold (\<lambda>key r. AList.update key (get F key) r) ks r)"
  by (induction ks arbitrary: r) auto

lemma mergeCapabilities_overlap:
  assumes "\<exists>k. hasOwnProperty A k \<and> hasOwnProperty F k"
  shows "mergeCapabilities A (Some F) = Inl InvalidArgument"
proof -
  from assms obtain k where "hasOwnProperty A k" and "k \<in> fst ` set F"
    by (auto simp: hasOwnProperty_iff)
  then have "\<exists>k \<in> set (map fst F). hasOwnProperty A k"
    by (intro bexI [of _ k]) simp_all
  then show ?thesis
    unfolding mergeCapabilities_def by (simp add: merge_secondary_overlap)
qed

lemma mergeCapabilities_disjoint:
  assumes "distinct (map fst A)" "distinct (map fst F)"
    and "\<not> (\<exists>k. hasOwnProperty A k \<and> hasOwnProperty F k)"
  shows "mergeCapabilities A (Some F) = Inr (A @ F)"
proof -
  from assms(3) have disj: "fst ` set A \<inter> fst ` set F = {}"
    unfolding hasOwnProperty_iff by blast
  then have no: "\<forall>k \<in> set (map fst F). \<not> hasOwnProperty A k"
    unfolding hasOwnProperty_iff by auto
  have d: "distinct (map fst A @ map fst F)"
    using assms(1,2) disj by simp
  have g: "\<forall>(k, v) \<in> set F. get F k = v" using assms(2) by (auto simp: get_distinct)
  have "fold (\<lambda>key r. AList.update key (get F key) r) (map fst F) A = A @ F"
    using fold_update_append [OF d g] .
  then show ?thesis
    unfolding mergeCapabilities_def
    by (simp add: merge_secondary_disjoint [OF no] copy_primary_distinct [OF assms(1)])
qed

text \<open>
  Claim C4. For validated sets \<open>A\<close> (alwaysMatch) and \<open>F\<close> (a firstMatch entry), which as
  objects have distinct keys: \<open>mergeCapabilities(A, F)\<close> throws \<open>InvalidArgument\<close> exactly
  when some key is in both; otherwise its result is the union of the two, key for key
  (the properties of \<open>A\<close> followed by those of \<open>F\<close>); and listing the properties of
  \<open>A\<close> and of \<open>F\<close> in another order changes neither the outcome nor, as a map, the
  result.
\<close>

theorem mergeCapabilities_union:
  assumes "distinct (map fst A)" and "distinct (map fst F)"
  shows "(mergeCapabilities A (Some F) = Inl InvalidArgument
            \<longleftrightarrow> (\<exists>k. hasOwnProperty A k \<and> hasOwnProperty F k))
       \<and> (\<not> (\<exists>k. hasOwnProperty A k \<and> hasOwnProperty F k) \<longrightarrow>
            mergeCapabilities A (Some F) = Inr (A @ F)
            \<and> map_of (A @ F) = map_of A ++ map_of F)
       \<and> (\<forall>A' F'. distinct (map fst A') \<and> distinct (map fst F')
              \<and> set A' = set A \<and> set F' = set F \<longrightarrow>
            (case mergeCapabilities A' (Some F') of
               Inl e \<Rightarrow> mergeCapabilities A (Some F) = Inl e
             | Inr r' \<Rightarrow> (\<exists>r. mergeCapabilities A (Some F) = Inr r
                              \<and> set r = set r' \<and> map_of r = map_of r')))"
proof (intro conjI allI impI)
  show "mergeCapabilities A (Some F) = Inl InvalidArgument
            \<longleftrightarrow> (\<exists>k. hasOwnProperty A k \<and> hasOwnProperty F k)"
  proof (cases "\<exists>k. hasOwnProperty A k \<and> hasOwnProperty F k")
    case True
    then show ?thesis using mergeCapabilities_overlap [of A F] by simp
  next
    case False
    then show ?thesis using mergeCapabilities_disjoint [OF assms False] by simp
  qed
next
  assume "\<not> (\<exists>k. hasOwnProperty A k \<and> hasOwnProperty F k)"
  then show "mergeCapabilities A (Some F) = Inr (A @ F)"
    using mergeCapabilities_disjoint [OF assms] by simp
next
  assume no: "\<not> (\<exists>k. hasOwnProperty A k \<and> hasOwnProperty F k)"
  have "dom (map_of A) \<inter> dom (map_of F) = {}"
    using no by (auto simp: hasOwnProperty_iff dom_map_of_conv_image_fst)
  then have "map_of F ++ map_of A = map_of A ++ map_of F"
    by (intro map_add_comm) auto
  then show "map_of (A @ F) = map_of A ++ map_of F"
    by simp
next
  fix A' F'
  assume h: "distinct (map fst A') \<and> distinct (map fst F') \<and> set A' = set A \<and> set F' = set F"
  then have dA: "distinct (map fst A')" and dF: "distinct (map fst F')"
    and sA: "set A' = set A" and sF: "set F' = set F" by auto
  have same: "(\<exists>k. hasOwnProperty A' k \<and> hasOwnProperty F' k)
                \<longleftrightarrow> (\<exists>k. hasOwnProperty A k \<and> hasOwnProperty F k)"
    by (simp add: hasOwnProperty_iff sA sF)
  show "case mergeCapabilities A' (Some F') of
               Inl e \<Rightarrow> mergeCapabilities A (Some F) = Inl e
             | Inr r' \<Rightarrow> (\<exists>r. mergeCapabilities A (Some F) = Inr r
                              \<and> set r = set r' \<and> map_of r = map_of r')"
  proof (cases "\<exists>k. hasOwnProperty A k \<and> hasOwnProperty F k")
    case True
    then show ?thesis
      using mergeCapabilities_overlap [of A F] mergeCapabilities_overlap [of A' F'] same by simp
  next
    case False
    have r: "mergeCapabilities A (Some F) = Inr (A @ F)"
      using mergeCapabilities_disjoint [OF assms False] .
    have r': "mergeCapabilities A' (Some F') = Inr (A' @ F')"
      using mergeCapabilities_disjoint [OF dA dF] False same by simp
    from False have disj: "fst ` set A \<inter> fst ` set F = {}"
      unfolding hasOwnProperty_iff by blast
    have dAF: "distinct (map fst (A @ F))"
      using assms disj by simp
    have dAF': "distinct (map fst (A' @ F'))"
      using dA dF disj sA sF by simp
    have "set (A @ F) = set (A' @ F')" by (simp add: sA sF)
    moreover from this have "map_of (A @ F) = map_of (A' @ F')"
      using map_of_inject_set [OF dAF dAF'] by simp
    ultimately show ?thesis using r r' by simp
  qed
qed

text \<open>
  Two disjoint sets merge into their union; a key in both throws.
\<close>

theorem mergeCapabilities_union_witness:
  "distinct (map fst [(''browserName'', JStr ''pluma'')])
   \<and> distinct (map fst [(''platformName'', JStr ''linux'')])
   \<and> mergeCapabilities [(''browserName'', JStr ''pluma'')] (Some [(''platformName'', JStr ''linux'')])
       = Inr [(''browserName'', JStr ''pluma''), (''platformName'', JStr ''linux'')]
   \<and> mergeCapabilities [(''browserName'', JStr ''pluma'')] (Some [(''browserName'', JStr ''pluma'')])
       = Inl InvalidArgument"
  using mergeCapabilities_union [of "[(''browserName'', JStr ''pluma'')]" "[(''platformName'', JStr ''linux'')]"]
    mergeCapabilities_union [of "[(''browserName'', JStr ''pluma'')]" "[(''browserName'', JStr ''pluma'')]"]
  by (simp add: hasOwnProperty_def)

subsection \<open>Matching and negotiation (C1, C5)\<close>

lemma match_switch_error: "match_switch c k m f = Inl e \<Longrightarrow> e = InvalidArgument"
  by (auto simp: match_switch_def split: if_splits)

lemma match_property_error: "match_property c k st = Inl e \<Longrightarrow> e = InvalidArgument"
  by (auto simp: match_property_def split: sum.splits dest: match_switch_error)

lemma match_properties_error: "match_properties c ks st = Inl e \<Longrightarrow> e = InvalidArgument"
  by (induction ks arbitrary: st) (auto split: sum.splits dest: match_property_error)

lemma matchCapabilities_error: "matchCapabilities p c = Inl e \<Longrightarrow> e = InvalidArgument"
  by (auto simp: matchCapabilities_def split: sum.splits dest: match_properties_error)

lemma first_failure_Cons:
  "(\<exists>pre m post. c # cs = pre @ m # post \<and> (\<forall>x \<in> set pre. Q x) \<and> R m)
     \<longleftrightarrow> R c \<or> (Q c \<and> (\<exists>pre m post. cs = pre @ m # post \<and> (\<forall>x \<in> set pre. Q x) \<and> R m))"
proof
  assume "\<exists>pre m post. c # cs = pre @ m # post \<and> (\<forall>x \<in> set pre. Q x) \<and> R m"
  then obtain pre m post where eq: "c # cs = pre @ m # post"
    and q: "\<forall>x \<in> set pre. Q x" and r: "R m" by blast
  show "R c \<or> (Q c \<and> (\<exists>pre m post. cs = pre @ m # post \<and> (\<forall>x \<in> set pre. Q x) \<and> R m))"
  proof (cases pre)
    case Nil
    with eq r show ?thesis by simp
  next
    case (Cons x pre')
    with eq q r have "Q c" and "cs = pre' @ m # post" and "\<forall>x \<in> set pre'. Q x" by auto
    with r show ?thesis by blast
  qed
next
  assume "R c \<or> (Q c \<and> (\<exists>pre m post. cs = pre @ m # post \<and> (\<forall>x \<in> set pre. Q x) \<and> R m))"
  then show "\<exists>pre m post. c # cs = pre @ m # post \<and> (\<forall>x \<in> set pre. Q x) \<and> R m"
  proof
    assume "R c"
    then have "c # cs = [] @ c # cs \<and> (\<forall>x \<in> set []. Q x) \<and> R c" by simp
    then show ?thesis by blast
  next
    assume "Q c \<and> (\<exists>pre m post. cs = pre @ m # post \<and> (\<forall>x \<in> set pre. Q x) \<and> R m)"
    then obtain pre m post where "Q c" and "cs = pre @ m # post"
      and "\<forall>x \<in> set pre. Q x" and "R m" by blast
    then have "c # cs = (c # pre) @ m # post \<and> (\<forall>x \<in> set (c # pre). Q x) \<and> R m" by simp
    then show ?thesis by blast
  qed
qed

lemma match_all_not_created:
  "match_all p ms init = Inl SessionNotCreated \<longleftrightarrow>
     (\<exists>pre m post. ms = pre @ m # post
        \<and> (\<forall>x \<in> set pre. \<exists>r. matchCapabilities p x = Inr (Some r))
        \<and> matchCapabilities p m = Inr None)"
proof (induction ms arbitrary: init)
  case Nil
  then show ?case by simp
next
  case (Cons c cs)
  show ?case
  proof (cases "matchCapabilities p c")
    case (Inl e)
    then have "e \<noteq> SessionNotCreated" using matchCapabilities_error by fastforce
    with Inl show ?thesis unfolding first_failure_Cons by simp
  next
    case (Inr r)
    then show ?thesis unfolding first_failure_Cons using Cons.IH by (cases r) simp_all
  qed
qed

lemma match_all_returns:
  "(\<exists>r. match_all p ms init = Inr r) \<longleftrightarrow>
     (\<forall>m \<in> set ms. \<exists>r. matchCapabilities p m = Inr (Some r))"
proof (induction ms arbitrary: init)
  case Nil
  then show ?case by simp
next
  case (Cons c cs)
  show ?case
  proof (cases "matchCapabilities p c")
    case (Inl e)
    then show ?thesis by simp
  next
    case (Inr r)
    then show ?thesis using Cons.IH by (cases r) simp_all
  qed
qed

lemma match_all_last:
  "ms \<noteq> [] \<Longrightarrow> \<forall>m \<in> set ms. \<exists>r. matchCapabilities p m = Inr (Some r) \<Longrightarrow>
   match_all p ms init = matchCapabilities p (last ms)"
proof (induction ms arbitrary: init)
  case Nil
  then show ?case by simp
next
  case (Cons c cs)
  then obtain r where r: "matchCapabilities p c = Inr (Some r)" by auto
  show ?case
  proof (cases "cs = []")
    case True
    with r show ?thesis by simp
  next
    case False
    with Cons r show ?thesis by simp
  qed
qed

lemma validate_firstMatch_length:
  "validate_firstMatch v xs = Inr vs \<Longrightarrow> length vs = length xs"
  by (induction xs arbitrary: vs) (auto split: sum.splits)

lemma merge_all_length: "merge_all req vs = Inr ms \<Longrightarrow> length ms = length vs"
  by (induction vs arbitrary: ms) (auto split: sum.splits)

lemma allMatchedCapabilities_of_nonempty:
  "allMatchedCapabilities_of caps = Inr xs \<Longrightarrow> xs \<noteq> []"
  by (auto simp: allMatchedCapabilities_of_def firstMatch_object_def
      split: jsval.splits if_splits option.splits)

lemma mergedCapabilities_of_nonempty:
  assumes "mergedCapabilities_of validate request = Inr ms"
  shows "ms \<noteq> []"
proof -
  from assms obtain caps req xs vs where
    "allMatchedCapabilities_of caps = Inr xs" and "validate_firstMatch validate xs = Inr vs"
    and "merge_all req vs = Inr ms"
    by (auto simp: mergedCapabilities_of_def split: sum.splits)
  then have "xs \<noteq> []" and "length ms = length xs"
    using allMatchedCapabilities_of_nonempty validate_firstMatch_length merge_all_length
    by fastforce+
  then show ?thesis by auto
qed

text \<open>
  Claim C1, as amended. When \<open>processCapabilities\<close> reaches the matching of its merged
  entries \<open>ms\<close> (there is at least one): it throws \<open>SessionNotCreated\<close> exactly when
  some merged entry fails to match and every entry before it matched; it returns a
  resolved capability set exactly when every merged entry matches; and what it returns
  then is the match of the last merged entry.
\<close>

theorem processCapabilities_every_entry_must_match:
  assumes "mergedCapabilities_of validate request = Inr ms"
  shows "ms \<noteq> []
    \<and> (processCapabilities validate platform request = Inl SessionNotCreated \<longleftrightarrow>
         (\<exists>pre m post. ms = pre @ m # post
            \<and> (\<forall>x \<in> set pre. \<exists>r. matchCapabilities platform x = Inr (Some r))
            \<and> matchCapabilities platform m = Inr None))
    \<and> ((\<exists>r. processCapabilities validate platform request = Inr r) \<longleftrightarrow>
         (\<forall>m \<in> set ms. \<exists>r. matchCapabilities platform m = Inr (Some r)))
    \<and> ((\<forall>m \<in> set ms. \<exists>r. matchCapabilities platform m = Inr (Some r)) \<longrightarrow>
         processCapabilities validate platform request = matchCapabilities platform (last ms))"
proof -
  have ne: "ms \<noteq> []" using mergedCapabilities_of_nonempty [OF assms] .
  have p: "processCapabilities validate platform request = match_all platform ms None"
    using assms by (simp add: processCapabilities_def)
  show ?thesis
    unfolding p
    using ne match_all_not_created [of platform ms None] match_all_returns [of platform ms None]
      match_all_last [OF ne, of platform None]
    by blast
qed

text \<open>
  Claim C1 as stated fails. With \<open>firstMatch = [{browserName: "pluma"},
  {browserName: "chrome"}]\<close> the first merged entry matches, and negotiation still
  throws \<open>SessionNotCreated\<close>. With \<open>firstMatch = [{pageLoadStrategy: "eager"},
  {pageLoadStrategy: "none"}]\<close> both entries match, and the result is that of the
  second entry, not of the first.
\<close>

theorem processCapabilities_first_match_counterexample:
  "mergedCapabilities_of (\<lambda>v k. True)
     (JObj [(''capabilities'', JObj [(''firstMatch'',
        JArr [JObj [(''browserName'', JStr ''pluma'')], JObj [(''browserName'', JStr ''chrome'')]])])])
     = Inr [[(''browserName'', JStr ''pluma'')], [(''browserName'', JStr ''chrome'')]]
   \<and> matchCapabilities ''linux'' [(''browserName'', JStr ''pluma'')]
       = Inr (Some (initial_matchedCapabilities ''linux''))
   \<and> processCapabilities (\<lambda>v k. True) ''linux''
     (JObj [(''capabilities'', JObj [(''firstMatch'',
        JArr [JObj [(''browserName'', JStr ''pluma'')], JObj [(''browserName'', JStr ''chrome'')]])])])
     = Inl SessionNotCreated
   \<and> matchCapabilities ''linux'' [(''pageLoadStrategy'', JStr ''eager'')]
       = Inr (Some (initial_matchedCapabilities ''linux'' @ [(''pageLoadStrategy'', JStr ''eager'')]))
   \<and> processCapabilities (\<lambda>v k. True) ''linux''
     (JObj [(''capabilities'', JObj [(''firstMatch'',
        JArr [JObj [(''pageLoadStrategy'', JStr ''eager'')], JObj [(''pageLoadStrategy'', JStr ''none'')]])])])
     = Inr (Some (initial_matchedCapabilities ''linux'' @ [(''pageLoadStrategy'', JStr ''none'')]))"
  by (simp add: processCapabilities_def mergedCapabilities_of_def request_capabilities_def
   get_def hasOwnProperty_def requiredCapabilities_of_def allMatchedCapabilities_of_def validate_firstMatch_entry_def
   mergeCapabilities_def copy_primary_def matchCapabilities_def match_property_def match_switch_def initial_matchedCapabilities_def)

text \<open>
  Two merged entries that both match: the result is the match of the second.
\<close>

theorem processCapabilities_every_entry_must_match_witness:
  "mergedCapabilities_of (\<lambda>v k. True)
     (JObj [(''capabilities'', JObj [(''firstMatch'',
        JArr [JObj [(''pageLoadStrategy'', JStr ''eager'')], JObj [(''pageLoadStrategy'', JStr ''none'')]])])])
     = Inr [[(''pageLoadStrategy'', JStr ''eager'')], [(''pageLoadStrategy'', JStr ''none'')]]
   \<and> processCapabilities (\<lambda>v k. True) ''linux''
     (JObj [(''capabilities'', JObj [(''firstMatch'',
        JArr [JObj [(''pageLoadStrategy'', JStr ''eager'')], JObj [(''pageLoadStrategy'', JStr ''none'')]])])])
     = matchCapabilities ''linux'' [(''pageLoadStrategy'', JStr ''none'')]"
proof -
  have m: "mergedCapabilities_of (\<lambda>v k. True)
     (JObj [(''capabilities'', JObj [(''firstMatch'',
        JArr [JObj [(''pageLoadStrategy'', JStr ''eager'')], JObj [(''pageLoadStrategy'', JStr ''none'')]])])])
     = Inr [[(''pageLoadStrategy'', JStr ''eager'')], [(''pageLoadStrategy'', JStr ''none'')]]"
    by (simp add: mergedCapabilities_of_def request_capabilities_def
   get_def hasOwnProperty_def requiredCapabilities_of_def allMatchedCapabilities_of_def validate_firstMatch_entry_def
   mergeCapabilities_def copy_primary_def)
  have a: "\<forall>m \<in> set [[(''pageLoadStrategy'', JStr ''eager'')], [(''pageLoadStrategy'', JStr ''none'')]].
            \<exists>r. matchCapabilities ''linux'' m = Inr (Some r)"
    by (simp add: matchCapabilities_def match_property_def match_switch_def get_def)
  show ?thesis
    using processCapabilities_every_entry_must_match [OF m, of "''linux''"] m a by simp
qed

text \<open>
  Claim C5. A recognised key whose value the validator rejects is dropped from a
  \<open>firstMatch\<close> entry and negotiation succeeds as if the key had not been sent, while
  the same key with the same value in \<open>alwaysMatch\<close> throws \<open>InvalidArgument\<close>.
\<close>

theorem firstMatch_invalid_key_dropped:
  assumes "\<not> validate x k" and "k \<in> set defaultCapabilities"
  shows "processCapabilities validate platform
           (JObj [(''capabilities'', JObj [(''firstMatch'', JArr [JObj [(k, x)]])])])
           = Inr (Some (initial_matchedCapabilities platform))
       \<and> processCapabilities validate platform
           (JObj [(''capabilities'', JObj [(''alwaysMatch'', JObj [(k, x)])])])
           = Inl InvalidArgument"
proof
  show "processCapabilities validate platform
           (JObj [(''capabilities'', JObj [(''firstMatch'', JArr [JObj [(k, x)]])])])
           = Inr (Some (initial_matchedCapabilities platform))"
    using assms(1)
    by (simp add: processCapabilities_def mergedCapabilities_of_def request_capabilities_def
   get_def hasOwnProperty_def requiredCapabilities_of_def allMatchedCapabilities_of_def validate_firstMatch_entry_def
   mergeCapabilities_def copy_primary_def matchCapabilities_def)
next
  have "validate_alwaysMatch validate (JObj [(k, x)]) defaultCapabilities [] = Inl InvalidArgument"
    using assms unfolding defaultCapabilities_def
    by (auto simp: hasOwnProperty_def get_def)
  then show "processCapabilities validate platform
           (JObj [(''capabilities'', JObj [(''alwaysMatch'', JObj [(k, x)])])])
           = Inl InvalidArgument"
    by (simp add: processCapabilities_def mergedCapabilities_of_def request_capabilities_def
   get_def hasOwnProperty_def requiredCapabilities_of_def)
qed

text \<open>
  A validator that wants a string for \<open>browserName\<close>, and the number 1 sent for it.
\<close>

theorem firstMatch_invalid_key_dropped_witness:
  "\<not> (\<lambda>v key. if key = ''browserName'' then (case v of JStr s \<Rightarrow> True | _ \<Rightarrow> False) else True)
        (JNum 1) ''browserName''
   \<and> ''browserName'' \<in> set defaultCapabilities
   \<and> processCapabilities
        (\<lambda>v key. if key = ''browserName'' then (case v of JStr s \<Rightarrow> True | _ \<Rightarrow> False) else True)
        ''linux''
        (JObj [(''capabilities'', JObj [(''firstMatch'', JArr [JObj [(''browserName'', JNum 1)]])])])
       = Inr (Some (initial_matchedCapabilities ''linux''))
   \<and> processCapabilities
        (\<lambda>v key. if key = ''browserName'' then (case v of JStr s \<Rightarrow> True | _ \<Rightarrow> False) else True)
        ''linux''
        (JObj [(''capabilities'', JObj [(''alwaysMatch'', JObj [(''browserName'', JNum 1)])])])
       = Inl InvalidArgument"
  using firstMatch_invalid_key_dropped
    [of "\<lambda>v key. if key = ''browserName'' then (case v of JStr s \<Rightarrow> True | _ \<Rightarrow> False) else True"
        "JNum 1" "''browserName''" "''linux''"]
  by (simp add: defaultCapabilities_def)

subsection \<open>Timeouts (C2) and the options of the browser (C10)\<close>

lemma get_update: "get (AList.update k v ob) k' = (if k' = k then v else get ob k')"
  by (simp add: get_def update_conv')

lemma hasOwnProperty_update:
  "hasOwnProperty (AList.update k v ob) k' \<longleftrightarrow> k' = k \<or> hasOwnProperty ob k'"
  by (auto simp: hasOwnProperty_iff dom_update)

lemma get_delete: "get (AList.delete k ob) k' = (if k' = k then JUndefined else get ob k')"
  by (simp add: get_def delete_conv')

lemma hasOwnProperty_delete:
  "hasOwnProperty (AList.delete k ob) k' \<longleftrightarrow> k' \<noteq> k \<and> hasOwnProperty ob k'"
  by (simp add: hasOwnProperty_def delete_conv' split: option.splits)

lemma get_fold_update:
  "get (fold (\<lambda>key cur. AList.update key (g key) cur) ks cur) k
     = (if k \<in> set ks then g k else get cur k)"
  by (induction ks arbitrary: cur) (auto simp: get_update)

lemma hasOwnProperty_fold_update:
  "hasOwnProperty (fold (\<lambda>key cur. AList.update key (g key) cur) ks cur) k
     \<longleftrightarrow> k \<in> set ks \<or> hasOwnProperty cur k"
  by (induction ks arbitrary: cur) (auto simp: hasOwnProperty_update)

lemma validate_timeouts_None:
  "validate_timeouts v ts ks = None \<longleftrightarrow> (\<forall>k \<in> set ks. v k (get ts k))"
  by (induction ks) auto

lemma validate_timeouts_Some:
  "validate_timeouts v ts ks = Some e \<Longrightarrow> e = InvalidArgument"
  by (induction ks) (auto split: if_splits)

text \<open>
  Claim C2. For every object \<open>ts\<close> passed to \<open>setTimeouts\<close> and whatever validation
  \<open>validateTimeouts\<close> performs: if some present field fails validation, the call throws
  \<open>InvalidArgument\<close> and leaves the session, and so its three timeouts, as it was; if
  every present field is valid, the call throws nothing and, in the new timeouts, every
  field of \<open>ts\<close> has the value given, every other field has its prior value, and
  nothing else of the session changes.
\<close>

theorem setTimeouts_all_or_nothing:
  "((\<exists>k. hasOwnProperty ts k \<and> \<not> validateTimeouts k (get ts k)) \<longrightarrow>
      setTimeouts validateTimeouts s (JObj ts) = (Some InvalidArgument, s))
   \<and> ((\<forall>k. hasOwnProperty ts k \<longrightarrow> validateTimeouts k (get ts k)) \<longrightarrow>
      (\<exists>s'. setTimeouts validateTimeouts s (JObj ts) = (None, s')
         \<and> knownElements s' = knownElements s
         \<and> (\<forall>k. get (timeouts s') k
                  = (if hasOwnProperty ts k then get ts k else get (timeouts s) k))
         \<and> (\<forall>k. hasOwnProperty (timeouts s') k
                  \<longleftrightarrow> hasOwnProperty ts k \<or> hasOwnProperty (timeouts s) k)))"
proof (intro conjI impI)
  assume "\<exists>k. hasOwnProperty ts k \<and> \<not> validateTimeouts k (get ts k)"
  then have "validate_timeouts validateTimeouts ts (map fst ts) \<noteq> None"
    unfolding validate_timeouts_None hasOwnProperty_iff by auto
  then have "validate_timeouts validateTimeouts ts (map fst ts) = Some InvalidArgument"
    using validate_timeouts_Some by fastforce
  then show "setTimeouts validateTimeouts s (JObj ts) = (Some InvalidArgument, s)"
    by (simp add: setTimeouts_def)
next
  assume "\<forall>k. hasOwnProperty ts k \<longrightarrow> validateTimeouts k (get ts k)"
  then have ok: "validate_timeouts validateTimeouts ts (map fst ts) = None"
    unfolding validate_timeouts_None hasOwnProperty_iff by auto
  let ?s' = "s\<lparr>timeouts := apply_timeouts ts (map fst ts) (timeouts s)\<rparr>"
  have r: "setTimeouts validateTimeouts s (JObj ts) = (None, ?s')"
    using ok by (simp add: setTimeouts_def)
  have g: "\<forall>k. get (timeouts ?s') k
                  = (if hasOwnProperty ts k then get ts k else get (timeouts s) k)"
    by (simp add: apply_timeouts_def get_fold_update hasOwnProperty_iff)
  have h: "\<forall>k. hasOwnProperty (timeouts ?s') k
                  \<longleftrightarrow> hasOwnProperty ts k \<or> hasOwnProperty (timeouts s) k"
    by (simp add: apply_timeouts_def hasOwnProperty_fold_update) (simp add: hasOwnProperty_iff)
  have k: "knownElements ?s' = knownElements s" by simp
  show "\<exists>s'. setTimeouts validateTimeouts s (JObj ts) = (None, s')
         \<and> knownElements s' = knownElements s
         \<and> (\<forall>k. get (timeouts s') k
                  = (if hasOwnProperty ts k then get ts k else get (timeouts s) k))
         \<and> (\<forall>k. hasOwnProperty (timeouts s') k
                  \<longleftrightarrow> hasOwnProperty ts k \<or> hasOwnProperty (timeouts s) k)"
    using r g h k by blast
qed

text \<open>
  The two calls of the spec, on the timeouts of a new session and with the validation
  the spec describes: \<open>{pageLoad: -1}\<close> throws and changes nothing, \<open>{implicit: 500}\<close>
  changes \<open>implicit\<close> only.
\<close>

theorem setTimeouts_all_or_nothing_witness:
  "setTimeouts validateTimeouts_spec
     \<lparr>timeouts = constructor_timeouts, knownElements = ([] :: nat list)\<rparr>
     (JObj [(''pageLoad'', JNum (- 1))])
     = (Some InvalidArgument, \<lparr>timeouts = constructor_timeouts, knownElements = []\<rparr>)
   \<and> (\<exists>s'. setTimeouts validateTimeouts_spec
             \<lparr>timeouts = constructor_timeouts, knownElements = ([] :: nat list)\<rparr>
             (JObj [(''implicit'', JNum 500)]) = (None, s')
          \<and> get (timeouts s') ''implicit'' = JNum 500
          \<and> get (timeouts s') ''pageLoad'' = JNum 30000
          \<and> get (timeouts s') ''script'' = JNum 3000)"
proof -
  have bad: "\<exists>k. hasOwnProperty [(''pageLoad'', JNum (- 1))] k
               \<and> \<not> validateTimeouts_spec k (get [(''pageLoad'', JNum (- 1))] k)"
    by (intro exI [of _ "''pageLoad''"])
      (simp add: hasOwnProperty_def get_def validateTimeouts_spec_def)
  have good: "\<forall>k. hasOwnProperty [(''implicit'', JNum 500)] k
               \<longrightarrow> validateTimeouts_spec k (get [(''implicit'', JNum 500)] k)"
    by (simp add: hasOwnProperty_def get_def validateTimeouts_spec_def)
  show ?thesis
    using bad good
      setTimeouts_all_or_nothing [of "[(''pageLoad'', JNum (- 1))]" validateTimeouts_spec
        "\<lparr>timeouts = constructor_timeouts, knownElements = ([] :: nat list)\<rparr>"]
      setTimeouts_all_or_nothing [of "[(''implicit'', JNum 500)]" validateTimeouts_spec
        "\<lparr>timeouts = constructor_timeouts, knownElements = ([] :: nat list)\<rparr>"]
    by (auto simp: hasOwnProperty_def get_def constructor_timeouts_def)
qed

lemma get_fold_truthy:
  "get (fold (\<lambda>option opts. if truthy (g option) then AList.update option (g option) opts
                              else opts) ks opts) k
     = (if k \<in> set ks \<and> truthy (g k) then g k else get opts k)"
  by (induction ks arbitrary: opts) (auto simp: get_update)

lemma keys_fold_truthy:
  "set ks \<subseteq> fst ` set opts \<Longrightarrow>
   map fst (fold (\<lambda>option opts. if truthy (g option) then AList.update option (g option) opts
                              else opts) ks opts) = map fst opts"
proof (induction ks arbitrary: opts)
  case Nil
  then show ?case by simp
next
  case (Cons k ks)
  have "map fst (AList.update k (g k) opts) = map fst opts"
    using Cons.prems by (simp add: update_keys)
  moreover have "set ks \<subseteq> fst ` set (AList.update k (g k) opts)"
    using Cons.prems by (auto simp: dom_update)
  ultimately show ?case using Cons by auto
qed

text \<open>
  Claim C10. For every capabilities object, the options the constructor hands to the
  browser configuration are the four defaults, each replaced by the requested value
  only where that value is truthy: an option requested with a falsy value keeps its
  default.
\<close>

theorem Browser_option_overridden_only_when_truthy:
  "\<exists>browserOptions. Browser_browserOptions (JObj capabilities) = Inr browserOptions
     \<and> map fst browserOptions = map fst browserOptions_default
     \<and> (\<forall>option \<in> set [''runScripts'', ''strictSSL'', ''unhandledPromptBehaviour'',
                          ''rejectPublicSuffixes''].
          get browserOptions option
            = (if truthy (get capabilities option) then get capabilities option
               else get browserOptions_default option))"
proof -
  let ?f = "\<lambda>option opts. if truthy (get capabilities option)
              then AList.update option (get capabilities option) opts else opts"
  let ?r = "fold ?f (map fst browserOptions_default) browserOptions_default"
  have r: "Browser_browserOptions (JObj capabilities) = Inr ?r"
    by (simp add: Browser_browserOptions_def cong: if_cong)
  have k: "map fst ?r = map fst browserOptions_default"
    by (rule keys_fold_truthy) simp
  have g: "\<forall>option \<in> set [''runScripts'', ''strictSSL'', ''unhandledPromptBehaviour'',
                          ''rejectPublicSuffixes''].
          get ?r option
            = (if truthy (get capabilities option) then get capabilities option
               else get browserOptions_default option)"
    unfolding get_fold_truthy by (simp add: browserOptions_default_def)
  show ?thesis using r k g by blast
qed

text \<open>
  \<open>strictSSL: false\<close> and \<open>runScripts: ''\<close> leave the defaults \<open>true\<close> and \<open>''\<close>;
  \<open>rejectPublicSuffixes: true\<close> overrides.
\<close>

theorem Browser_option_overridden_only_when_truthy_witness:
  "\<exists>browserOptions.
     Browser_browserOptions
       (JObj [(''strictSSL'', JBool False), (''runScripts'', JStr []),
              (''rejectPublicSuffixes'', JBool True)]) = Inr browserOptions
     \<and> get browserOptions ''strictSSL'' = JBool True
     \<and> get browserOptions ''runScripts'' = JStr []
     \<and> get browserOptions ''rejectPublicSuffixes'' = JBool True"
  using Browser_option_overridden_only_when_truthy
    [of "[(''strictSSL'', JBool False), (''runScripts'', JStr []),
          (''rejectPublicSuffixes'', JBool True)]"]
  by (auto simp: get_def browserOptions_default_def)

subsection \<open>Element retrieval (C3, C6, C7)\<close>

text \<open>
  Claim C3 fails on the code. The deadline \<open>endTime\<close> is the date an engine parses from
  the text of the function \<open>getTime\<close> followed by the timeout: no clock reading enters
  it, so it is not the time of the call plus the timeout. Where that date is invalid,
  or not after the clock when the first round ends, a \<open>css selector\<close> that matches
  nothing returns the empty result after a single round.
\<close>

theorem elementRetrieval_deadline_ignores_clock:
  "endTime_of eng implicit = Date_parse eng (getTime_text @ ToString eng implicit)
   \<and> (\<not> date_greater (endTime_of eng (get (timeouts s) ''implicit'')) now \<longrightarrow>
        querySelectorAll d doc selector = Inr [] \<longrightarrow>
        elementRetrieval eng d WebElement s ((doc, now) # rounds) ''css selector'' selector
          = (Some (Inr ([], s)), 1))"
  by (simp add: endTime_of_def elementRetrieval_def run_strategy_def collect_elements_def)

text \<open>
  An implicit timeout of 200 ms, a selector that matches nothing, and clock readings
  1000, 1100, 1200. On an engine that reads no date in the text, and on one that reads
  the number as a year (the first of January of the year 200), the call returns the
  empty result after the first round, at 1000 and not at 1200.
\<close>

theorem elementRetrieval_deadline_ignores_clock_witness:
  "elementRetrieval
     \<lparr>defined = (\<lambda>name. False), Date_parse = (\<lambda>text. None), ToString = (\<lambda>v. ''200'')\<rparr>
     \<lparr>querySelectorAll = (\<lambda>doc sel. Inr (filter (\<lambda>el. el = sel) doc)),
      getElementsByTagName = (\<lambda>doc sel. Inr (filter (\<lambda>el. el = sel) doc)),
      innerHTML = (\<lambda>el. el)\<rparr>
     (\<lambda>el. el)
     \<lparr>timeouts = [(''implicit'', JNum 200), (''pageLoad'', JNum 30000),
                  (''script'', JNum 3000)],
      knownElements = ([] :: string list)\<rparr>
     [([''p''], 1000), ([''p''], 1100), ([''p''], 1200)]
     ''css selector'' ''div''
   = (Some (Inr ([], \<lparr>timeouts = [(''implicit'', JNum 200), (''pageLoad'', JNum 30000),
                                  (''script'', JNum 3000)],
                      knownElements = []\<rparr>)), 1)
   \<and> elementRetrieval
     \<lparr>defined = (\<lambda>name. False),
      Date_parse = (\<lambda>text. if text = ''function getTime() { [native code] }200''
                           then Some (- 55855785600000) else None),
      ToString = (\<lambda>v. ''200'')\<rparr>
     \<lparr>querySelectorAll = (\<lambda>doc sel. Inr (filter (\<lambda>el. el = sel) doc)),
      getElementsByTagName = (\<lambda>doc sel. Inr (filter (\<lambda>el. el = sel) doc)),
      innerHTML = (\<lambda>el. el)\<rparr>
     (\<lambda>el. el)
     \<lparr>timeouts = [(''implicit'', JNum 200), (''pageLoad'', JNum 30000),
                  (''script'', JNum 3000)],
      knownElements = ([] :: string list)\<rparr>
     [([''p''], 1000), ([''p''], 1100), ([''p''], 1200)]
     ''css selector'' ''div''
   = (Some (Inr ([], \<lparr>timeouts = [(''implicit'', JNum 200), (''pageLoad'', JNum 30000),
                                  (''script'', JNum 3000)],
                      knownElements = []\<rparr>)), 1)"
  using elementRetrieval_deadline_ignores_clock
    [of "\<lparr>defined = (\<lambda>name. False), Date_parse = (\<lambda>text. None), ToString = (\<lambda>v. ''200'')\<rparr>"
        "JNum 200"
        "\<lparr>timeouts = [(''implicit'', JNum 200), (''pageLoad'', JNum 30000),
                     (''script'', JNum 3000)],
         knownElements = ([] :: string list)\<rparr>"
        1000
        "\<lparr>querySelectorAll = (\<lambda>doc sel. Inr (filter (\<lambda>el. el = sel) doc)),
         getElementsByTagName = (\<lambda>doc sel. Inr (filter (\<lambda>el. el = sel) doc)),
         innerHTML = (\<lambda>el. el)\<rparr>"
        "[''p'']" "''div''" "\<lambda>el. el" "[([''p''], 1100), ([''p''], 1200)]"]
    elementRetrieval_deadline_ignores_clock
    [of "\<lparr>defined = (\<lambda>name. False),
          Date_parse = (\<lambda>text. if text = ''function getTime() { [native code] }200''
                           then Some (- 55855785600000) else None),
          ToString = (\<lambda>v. ''200'')\<rparr>"
        "JNum 200"
        "\<lparr>timeouts = [(''implicit'', JNum 200), (''pageLoad'', JNum 30000),
                     (''script'', JNum 3000)],
         knownElements = ([] :: string list)\<rparr>"
        1000
        "\<lparr>querySelectorAll = (\<lambda>doc sel. Inr (filter (\<lambda>el. el = sel) doc)),
         getElementsByTagName = (\<lambda>doc sel. Inr (filter (\<lambda>el. el = sel) doc)),
         innerHTML = (\<lambda>el. el)\<rparr>"
        "[''p'']" "''div''" "\<lambda>el. el" "[([''p''], 1100), ([''p''], 1200)]"]
  by (simp add: date_greater_def endTime_of_def getTime_text_def get_def)

lemma catch_block_InvalidArgument:
  "catch_block eng InvalidArgument
     \<in> {ReferenceError ''DOMException'', ReferenceError ''XPathException'',
        ReferenceError ''UnknownError'', UnknownError}"
  by (simp add: catch_block_def)

text \<open>
  Claim C6 fails on the code. A strategy that is none of the five recognised ones
  throws \<open>InvalidArgument\<close> inside the \<open>try\<close> of the first round, and the \<open>catch\<close>
  block replaces it: the caller gets a \<open>ReferenceError\<close> or \<open>UnknownError\<close>, never
  \<open>InvalidArgument\<close>.
\<close>

theorem elementRetrieval_unrecognized_strategy:
  assumes "strategy \<notin> set [''css selector'', ''link text'', ''partial link text'',
                             ''tag name'', ''xpath'']"
  shows "elementRetrieval eng d WebElement s ((doc, now) # rounds) strategy selector
           = (Some (Inl (catch_block eng InvalidArgument)), 1)
       \<and> catch_block eng InvalidArgument \<noteq> InvalidArgument
       \<and> catch_block eng InvalidArgument
            \<in> {ReferenceError ''DOMException'', ReferenceError ''XPathException'',
               ReferenceError ''UnknownError'', UnknownError}"
proof -
  have "run_strategy d doc strategy selector Undefined_elements = Inl InvalidArgument"
    using assms by (simp add: run_strategy_def)
  then have "elementRetrieval eng d WebElement s ((doc, now) # rounds) strategy selector
           = (Some (Inl (catch_block eng InvalidArgument)), 1)"
    by (simp add: elementRetrieval_def)
  moreover have "catch_block eng InvalidArgument \<noteq> InvalidArgument"
    by (simp add: catch_block_def)
  ultimately show ?thesis using catch_block_InvalidArgument by simp
qed

text \<open>
  The strategy \<open>id\<close> on an engine without a global \<open>DOMException\<close>.
\<close>

theorem elementRetrieval_unrecognized_strategy_witness:
  "''id'' \<notin> set [''css selector'', ''link text'', ''partial link text'', ''tag name'', ''xpath'']
   \<and> elementRetrieval
        \<lparr>defined = (\<lambda>name. False), Date_parse = (\<lambda>text. None), ToString = (\<lambda>v. ''0'')\<rparr>
        \<lparr>querySelectorAll = (\<lambda>doc sel. Inr (filter (\<lambda>el. el = sel) doc)),
         getElementsByTagName = (\<lambda>doc sel. Inr (filter (\<lambda>el. el = sel) doc)),
         innerHTML = (\<lambda>el. el)\<rparr>
        (\<lambda>el. el)
        \<lparr>timeouts = constructor_timeouts, knownElements = ([] :: string list)\<rparr>
        [([''p''], 1000)] ''id'' ''main''
      = (Some (Inl (ReferenceError ''DOMException'')), 1)"
  using elementRetrieval_unrecognized_strategy
    [of "''id''"
        "\<lparr>defined = (\<lambda>name. False), Date_parse = (\<lambda>text. None), ToString = (\<lambda>v. ''0'')\<rparr>"
        "\<lparr>querySelectorAll = (\<lambda>doc sel. Inr (filter (\<lambda>el. el = sel) doc)),
         getElementsByTagName = (\<lambda>doc sel. Inr (filter (\<lambda>el. el = sel) doc)),
         innerHTML = (\<lambda>el. el)\<rparr>"
        "\<lambda>el. el"
        "\<lparr>timeouts = constructor_timeouts, knownElements = ([] :: string list)\<rparr>"
        "[''p'']" 1000 "[]" "''main''"]
  by (simp add: catch_block_def)

lemma run_strategy_link_text:
  "strategy = ''link text'' \<or> strategy = ''partial link text'' \<Longrightarrow>
   run_strategy d doc strategy selector elements = Inr els \<Longrightarrow> els = Result_array"
  by (auto simp: run_strategy_def linkTextSelector_def split: sum.splits)

lemma retrieval_loop_link_text:
  "strategy = ''link text'' \<or> strategy = ''partial link text'' \<Longrightarrow>
   retrieval_loop eng d endTime strategy selector rounds elements n = (Some (Inr els), m) \<Longrightarrow>
   els = Result_array"
proof (induction rounds arbitrary: elements n)
  case Nil
  then show ?case by simp
next
  case (Cons r rounds)
  obtain doc now where r: "r = (doc, now)" by (cases r)
  show ?case
  proof (cases "run_strategy d doc strategy selector elements")
    case (Inl e)
    with Cons.prems r show ?thesis by simp
  next
    case (Inr els')
    have els': "els' = Result_array"
      using run_strategy_link_text [OF Cons.prems(1) Inr] .
    show ?thesis
    proof (cases "date_greater endTime now")
      case True
      with Cons.prems(2) r Inr els'
      have "retrieval_loop eng d endTime strategy selector rounds Result_array (Suc n)
              = (Some (Inr els), m)" by simp
      then show ?thesis using Cons.IH [OF Cons.prems(1)] by simp
    next
      case False
      with Cons.prems(2) r Inr els' show ?thesis by simp
    qed
  qed
qed

text \<open>
  Claim C7 fails on the code. Whenever \<open>elementRetrieval\<close> returns for the strategy
  \<open>link text\<close> or \<open>partial link text\<close>, what it returns is empty and no element is
  recorded, whatever anchors the document holds.
\<close>

theorem elementRetrieval_link_text_empty:
  assumes "strategy = ''link text'' \<or> strategy = ''partial link text''"
    and "elementRetrieval eng d WebElement s rounds strategy selector
           = (Some (Inr (found, s')), n)"
  shows "found = [] \<and> s' = s"
proof -
  from assms(2) obtain els where
    l: "retrieval_loop eng d (endTime_of eng (get (timeouts s) ''implicit'')) strategy selector
          rounds Undefined_elements 0 = (Some (Inr els), n)"
    and c: "collect_elements WebElement s els = Inr (found, s')"
    by (auto simp: elementRetrieval_def Let_def split: prod.splits option.splits sum.splits)
  from retrieval_loop_link_text [OF assms(1) l] have "els = Result_array" .
  with c show ?thesis by (simp add: collect_elements_def)
qed

text \<open>
  A document whose only anchor has the text \<open>foo\<close>, which trimmed equals the selector
  \<open>foo\<close>: the result is empty.
\<close>

theorem elementRetrieval_link_text_empty_witness:
  "(''link text'' = ''link text'' \<or> ''link text'' = ''partial link text'')
   \<and> trim (''foo'' :: string) = ''foo''
   \<and> elementRetrieval
        \<lparr>defined = (\<lambda>name. False), Date_parse = (\<lambda>text. None), ToString = (\<lambda>v. ''0'')\<rparr>
        \<lparr>querySelectorAll = (\<lambda>doc sel. Inr (filter (\<lambda>el. fst el = sel) doc)),
         getElementsByTagName = (\<lambda>doc sel. Inr (filter (\<lambda>el. fst el = sel) doc)),
         innerHTML = snd\<rparr>
        (\<lambda>el. el)
        \<lparr>timeouts = constructor_timeouts, knownElements = ([] :: (string \<times> string) list)\<rparr>
        [([(''a'', ''foo'')], 1000)] ''link text'' ''foo''
      = (Some (Inr ([], \<lparr>timeouts = constructor_timeouts, knownElements = []\<rparr>)), 1)"
proof -
  have e: "\<exists>found s'. elementRetrieval
        \<lparr>defined = (\<lambda>name. False), Date_parse = (\<lambda>text. None), ToString = (\<lambda>v. ''0'')\<rparr>
        \<lparr>querySelectorAll = (\<lambda>doc sel. Inr (filter (\<lambda>el. fst el = sel) doc)),
         getElementsByTagName = (\<lambda>doc sel. Inr (filter (\<lambda>el. fst el = sel) doc)),
         innerHTML = snd\<rparr>
        (\<lambda>el. el)
        \<lparr>timeouts = constructor_timeouts, knownElements = ([] :: (string \<times> string) list)\<rparr>
        [([(''a'', ''foo'')], 1000)] ''link text'' ''foo''
      = (Some (Inr (found, s')), 1)"
    by (simp add: elementRetrieval_def run_strategy_def linkTextSelector_def
        collect_elements_def date_greater_def endTime_of_def)
  then obtain found s' where r: "elementRetrieval
        \<lparr>defined = (\<lambda>name. False), Date_parse = (\<lambda>text. None), ToString = (\<lambda>v. ''0'')\<rparr>
        \<lparr>querySelectorAll = (\<lambda>doc sel. Inr (filter (\<lambda>el. fst el = sel) doc)),
         getElementsByTagName = (\<lambda>doc sel. Inr (filter (\<lambda>el. fst el = sel) doc)),
         innerHTML = snd\<rparr>
        (\<lambda>el. el)
        \<lparr>timeouts = constructor_timeouts, knownElements = ([] :: (string \<times> string) list)\<rparr>
        [([(''a'', ''foo'')], 1000)] ''link text'' ''foo''
      = (Some (Inr (found, s')), 1)" by blast
  have "found = [] \<and> s' = \<lparr>timeouts = constructor_timeouts, knownElements = []\<rparr>"
    using elementRetrieval_link_text_empty [OF _ r] by simp
  with r show ?thesis by (simp add: trim_def is_space_def)
qed

subsection \<open>getCookies (C8)\<close>

lemma get_absent: "\<not> hasOwnProperty ob k \<Longrightarrow> get ob k = JUndefined"
  by (simp add: get_def hasOwnProperty_def split: option.splits)

lemma convert_key_no_expires:
  "\<not> hasOwnProperty cur ''expires'' \<Longrightarrow>
   \<not> hasOwnProperty (convert_key eng cookie k cur) ''expires''"
  by (auto simp: convert_key_def Let_def hasOwnProperty_update)

lemma convert_key_expiry:
  "\<not> hasOwnProperty cur ''expires'' \<Longrightarrow> k \<noteq> ''expiry'' \<Longrightarrow>
   get (convert_key eng cookie k cur) ''expiry''
     = (if k = ''expires'' then JNaN else get cur ''expiry'')"
  by (auto simp: convert_key_def Let_def get_update get_absent getTime_def)

lemma convert_fold_expiry:
  "''expiry'' \<notin> set ks \<Longrightarrow> \<not> hasOwnProperty cur ''expires'' \<Longrightarrow>
   ''expires'' \<in> set ks \<or> get cur ''expiry'' = JNaN \<Longrightarrow>
   get (fold (convert_key eng cookie) ks cur) ''expiry'' = JNaN"
proof (induction ks arbitrary: cur)
  case Nil
  then show ?case by simp
next
  case (Cons k ks)
  have k: "k \<noteq> ''expiry''" and ks: "''expiry'' \<notin> set ks" using Cons.prems(1) by auto
  have n: "\<not> hasOwnProperty (convert_key eng cookie k cur) ''expires''"
    using convert_key_no_expires [OF Cons.prems(2)] .
  have e: "''expires'' \<in> set ks \<or> get (convert_key eng cookie k cur) ''expiry'' = JNaN"
    using Cons.prems(3) convert_key_expiry [OF Cons.prems(2) k, of eng cookie] by auto
  show ?case using Cons.IH [OF ks n e] by simp
qed

text \<open>
  Claim C8 fails on the code. \<open>getCookies\<close> converts every cookie of the serialised
  jar, and for a cookie that has an expiration (\<open>expires\<close>) the field \<open>expiry\<close> of the
  result is \<open>NaN\<close>, whatever the expiration is: the date is built from
  \<open>currentCookie.expires\<close>, which is never set.
\<close>

theorem getCookies_expiry_is_NaN:
  "getCookies eng (Inr jar) = Inr (map (convert_cookie eng) jar)
   \<and> (\<forall>cookie \<in> set jar.
         hasOwnProperty cookie ''expires'' \<and> \<not> hasOwnProperty cookie ''expiry'' \<longrightarrow>
         get (convert_cookie eng cookie) ''expiry'' = JNaN)"
proof (intro conjI ballI impI)
  show "getCookies eng (Inr jar) = Inr (map (convert_cookie eng) jar)"
    by (simp add: getCookies_def)
next
  fix cookie
  assume "hasOwnProperty cookie ''expires'' \<and> \<not> hasOwnProperty cookie ''expiry''"
  then have a: "''expires'' \<in> set (map fst cookie) \<or> get [(''name'', JStr []), (''value'', JStr [])] ''expiry'' = JNaN"
    and b: "''expiry'' \<notin> set (map fst cookie)"
    by (simp_all add: hasOwnProperty_iff)
  have c: "\<not> hasOwnProperty [(''name'', JStr []), (''value'', JStr [])] ''expires''"
    by (simp add: hasOwnProperty_def)
  show "get (convert_cookie eng cookie) ''expiry'' = JNaN"
    unfolding convert_cookie_def using convert_fold_expiry [OF b c a]
    by (simp add: get_delete)
qed

text \<open>
  A jar with one cookie that expires on 2030-01-01, on an engine that parses that date:
  \<open>key\<close> comes back as \<open>name\<close>, \<open>creation\<close> is gone, and \<open>expiry\<close> is \<open>NaN\<close>.
\<close>

theorem getCookies_expiry_is_NaN_witness:
  "getCookies
     \<lparr>defined = (\<lambda>name. False),
      Date_parse = (\<lambda>text. if text = ''2030-01-01T00:00:00.000Z'' then Some 1893456000000 else None),
      ToString = (\<lambda>v. [])\<rparr>
     (Inr [[(''key'', JStr ''x''), (''value'', JStr ''y''),
            (''expires'', JStr ''2030-01-01T00:00:00.000Z''),
            (''domain'', JStr ''example.com''), (''path'', JStr ''/''),
            (''creation'', JStr ''2020-01-01T00:00:00.000Z'')]])
   = Inr [[(''name'', JStr ''x''), (''value'', JStr ''y''), (''expiry'', JNaN),
           (''domain'', JStr ''example.com''), (''path'', JStr ''/'')]]"
  using getCookies_expiry_is_NaN
    [of "\<lparr>defined = (\<lambda>name. False),
      Date_parse = (\<lambda>text. if text = ''2030-01-01T00:00:00.000Z'' then Some 1893456000000 else None),
      ToString = (\<lambda>v. [])\<rparr>"
      "[[(''key'', JStr ''x''), (''value'', JStr ''y''),
            (''expires'', JStr ''2030-01-01T00:00:00.000Z''),
            (''domain'', JStr ''example.com''), (''path'', JStr ''/''),
            (''creation'', JStr ''2020-01-01T00:00:00.000Z'')]]"]
  by (simp add: convert_cookie_def convert_key_def get_def getTime_def hasOwnProperty_def)

subsection \<open>addCookie (C9)\<close>

lemma get_Nil: "get [] k = JUndefined"
  by (simp add: get_def)

lemma get_Cons: "get ((k, v) # ob) k' = (if k' = k then v else get ob k')"
  by (simp add: get_def)

lemma hasOwnProperty_Nil: "\<not> hasOwnProperty [] k"
  by (simp add: hasOwnProperty_def)

lemma hasOwnProperty_Cons: "hasOwnProperty ((k, v) # ob) k' \<longleftrightarrow> k' = k \<or> hasOwnProperty ob k'"
  by (simp add: hasOwnProperty_def)

lemmas literal_object = get_Nil get_Cons hasOwnProperty_Nil hasOwnProperty_Cons

lemma remove_dot_prefix_id: "take 1 s \<noteq> ''.'' \<Longrightarrow> remove_dot_prefix s = s"
  by (cases s) auto

lemma isValidCookie_update_domain:
  "isValidCookie (AList.update ''domain'' v cookie) = isValidCookie cookie"
  by (simp add: isValidCookie_def get_update)

lemma get_createCookieJarOptions:
  "get (createCookieJarOptions cookie activeDomain) f
     = (if hasOwnProperty cookie f then get cookie f
        else get [(''domain'', JStr activeDomain), (''path'', JStr ''/''),
                  (''secure'', JBool False), (''httpOnly'', JBool False)] f)"
  by (simp add: createCookieJarOptions_def get_fold_update hasOwnProperty_iff)

lemma hasOwnProperty_createCookieJarOptions:
  "hasOwnProperty (createCookieJarOptions cookie activeDomain) f
     \<longleftrightarrow> hasOwnProperty cookie f
         \<or> hasOwnProperty [(''domain'', JStr activeDomain), (''path'', JStr ''/''),
                  (''secure'', JBool False), (''httpOnly'', JBool False)] f"
  by (simp add: createCookieJarOptions_def hasOwnProperty_fold_update)
     (simp add: hasOwnProperty_iff)

lemma get_cookie_options:
  "f \<noteq> ''name'' \<Longrightarrow> f \<noteq> ''expiry'' \<Longrightarrow> f \<noteq> ''0'' \<Longrightarrow>
   get (cookie_options eng options) f
     = (if hasOwnProperty options f then get options f
        else if f = ''key'' then get options ''name'' else JUndefined)"
proof -
  assume f: "f \<noteq> ''name''" "f \<noteq> ''expiry''" "f \<noteq> ''0''"
  let ?rem = "AList.delete ''expiry'' (AList.delete ''name'' options)"
  have h: "f \<in> set (map fst ?rem) \<longleftrightarrow> hasOwnProperty options f"
    using f hasOwnProperty_iff [of ?rem f] by (simp add: hasOwnProperty_delete)
  have g: "get ?rem f = get options f"
    using f by (simp add: get_delete)
  show ?thesis
    unfolding cookie_options_def Let_def get_fold_update h g
    using f by (simp add: literal_object)
qed

lemma hasOwnProperty_cookie_options:
  "hasOwnProperty (cookie_options eng options) ''key''
   \<and> \<not> hasOwnProperty (cookie_options eng options) ''name''"
proof -
  let ?rem = "AList.delete ''expiry'' (AList.delete ''name'' options)"
  have "''name'' \<notin> set (map fst ?rem)"
    using hasOwnProperty_iff [of ?rem "''name''"] by (simp add: hasOwnProperty_delete)
  then show ?thesis
    unfolding cookie_options_def Let_def hasOwnProperty_fold_update
    by (simp add: literal_object)
qed

lemma convert_fold_copy:
  "f \<noteq> ''name'' \<Longrightarrow> f \<noteq> ''expiry'' \<Longrightarrow> f \<noteq> ''key'' \<Longrightarrow> f \<noteq> ''expires'' \<Longrightarrow>
   get (fold (convert_key eng cookie) ks cur) f
     = (if f \<in> set ks then get cookie f else get cur f)"
  by (induction ks arbitrary: cur) (auto simp: convert_key_def Let_def get_update)

lemma convert_fold_name:
  "''name'' \<notin> set ks \<Longrightarrow>
   get (fold (convert_key eng cookie) ks cur) ''name''
     = (if ''key'' \<in> set ks then get cookie ''key'' else get cur ''name'')"
  by (induction ks arbitrary: cur) (auto simp: convert_key_def Let_def get_update)

lemma convert_cookie_name:
  "hasOwnProperty ob ''key'' \<Longrightarrow> \<not> hasOwnProperty ob ''name'' \<Longrightarrow>
   get (convert_cookie eng ob) ''name'' = get ob ''key''"
  by (simp add: convert_cookie_def get_delete convert_fold_name hasOwnProperty_iff)

lemma convert_cookie_domain:
  "hasOwnProperty ob ''domain'' \<Longrightarrow>
   get (convert_cookie eng ob) ''domain'' = get ob ''domain''"
  by (simp add: convert_cookie_def get_delete convert_fold_copy hasOwnProperty_iff)

lemma getCookies_putCookie:
  "\<exists>cs. getCookies eng (Inr (putCookie jar stored)) = Inr cs
      \<and> convert_cookie eng stored \<in> set cs"
  by (simp add: getCookies_def putCookie_def)

text \<open>
  What \<open>addCookie\<close> does to the domain and with the defaults. In a browser with a
  window and a document of a valid scheme, for every valid cookie whose domain is a
  string \<open>s\<close> or absent, \<open>addCookie\<close> succeeds and writes one cookie \<open>stored\<close> to the
  jar. With a string domain, what is validated and stored is the clone that
  \<open>cloneCookieWithoutDomainDotPrefix\<close> makes, whose \<open>domain\<close> is \<open>s\<close> without its
  leading dot and whose other fields are those of the cookie, and the stored domain is
  that string. With no domain, the stored domain is the active domain. Apart from the
  name and the expiry, every other field keeps the value the cookie gives it, also a
  false or empty one, and gets the default (path \<open>/\<close>, secure \<open>false\<close>, httpOnly
  \<open>false\<close>) only where the cookie lacks it. And \<open>getCookies\<close> afterwards lists a
  cookie with the name of the cookie added and the stored domain.
\<close>

lemma addCookie_domain_and_defaults:
  assumes "window_open b" and "isValidScheme (scheme_of (url b))" and "isValidCookie cookie"
    and "get cookie ''domain'' = JStr s \<or> \<not> hasOwnProperty cookie ''domain''"
  shows "\<exists>stored.
      addCookie eng extractDomainFromUrl creation b cookie
        = Inr (b\<lparr>cookieJar := putCookie (cookieJar b) stored\<rparr>)
      \<and> (get cookie ''domain'' = JStr s \<longrightarrow>
           (\<exists>clone. cloneCookieWithoutDomainDotPrefix cookie = Inr clone
              \<and> get clone ''domain'' = JStr (remove_dot_prefix s)
              \<and> (\<forall>f. f \<noteq> ''domain'' \<longrightarrow>
                    get clone f = get cookie f
                    \<and> hasOwnProperty clone f = hasOwnProperty cookie f)
              \<and> isValidCookie clone
              \<and> stored = Cookie_new creation (cookie_options eng
                    (createCookieJarOptions clone (extractDomainFromUrl (url b)))))
           \<and> get stored ''domain'' = JStr (remove_dot_prefix s))
      \<and> (\<not> hasOwnProperty cookie ''domain'' \<longrightarrow>
           get stored ''domain'' = JStr (extractDomainFromUrl (url b)))
      \<and> (\<forall>f. f \<notin> {''domain'', ''name'', ''expiry'', ''key'', ''0'', ''creation''} \<longrightarrow>
           get stored f
             = (if hasOwnProperty cookie f then get cookie f
                else get [(''path'', JStr ''/''), (''secure'', JBool False),
                          (''httpOnly'', JBool False)] f))
      \<and> (\<not> hasOwnProperty cookie ''key'' \<longrightarrow>
           get stored ''key'' = get cookie ''name''
           \<and> (\<exists>cs c. getCookies eng (Inr (putCookie (cookieJar b) stored)) = Inr cs
                \<and> c \<in> set cs
                \<and> get c ''name'' = get cookie ''name''
                \<and> get c ''domain'' = get stored ''domain''))"
proof -
  define clone where
    "clone = (if get cookie ''domain'' = JStr s \<and> take 1 s = ''.''
              then AList.update ''domain'' (JStr (remove_dot_prefix s)) cookie else cookie)"
  define options where "options = createCookieJarOptions clone (extractDomainFromUrl (url b))"
  define stored where "stored = Cookie_new creation (cookie_options eng options)"
  have "get cookie ''name'' \<noteq> JUndefined"
    using assms(3) by (auto simp: isValidCookie_def Let_def isValidName_def)
  then have name: "hasOwnProperty cookie ''name''"
    using get_absent by blast
  have valid: "isValidCookie clone"
    using assms(3) by (simp add: clone_def isValidCookie_update_domain)
  have shallow: "(case isCookieDomainDotPrefixed cookie of
                    Inl e \<Rightarrow> Inl e
                  | Inr dotted \<Rightarrow>
                      if dotted then cloneCookieWithoutDomainDotPrefix cookie else Inr cookie)
                 = Inr clone"
  proof (cases "get cookie ''domain'' = JStr s")
    case True
    then show ?thesis
      by (simp add: isCookieDomainDotPrefixed_def cloneCookieWithoutDomainDotPrefix_def
          clone_def)
  next
    case False
    with assms(4) have "get cookie ''domain'' = JUndefined" by (simp add: get_absent)
    with False show ?thesis
      by (simp add: isCookieDomainDotPrefixed_def clone_def)
  qed
  have run: "addCookie eng extractDomainFromUrl creation b cookie
        = Inr (b\<lparr>cookieJar := putCookie (cookieJar b) stored\<rparr>)"
  proof (cases "isCookieDomainDotPrefixed cookie")
    case (Inl e)
    with shallow show ?thesis by simp
  next
    case (Inr dotted)
    with shallow valid assms(1,2) show ?thesis
      by (simp add: addCookie_def Let_def stored_def options_def)
  qed
  have clone_other: "\<And>f. f \<noteq> ''domain'' \<Longrightarrow>
      get clone f = get cookie f \<and> hasOwnProperty clone f = hasOwnProperty cookie f"
    by (simp add: clone_def get_update hasOwnProperty_update)
  have clone_domain: "get cookie ''domain'' = JStr s \<Longrightarrow>
      get clone ''domain'' = JStr (remove_dot_prefix s) \<and> hasOwnProperty clone ''domain''"
  proof -
    assume g: "get cookie ''domain'' = JStr s"
    then have h: "hasOwnProperty cookie ''domain''" using get_absent by fastforce
    show ?thesis
    proof (cases "take 1 s = ''.''")
      case True
      with g show ?thesis by (simp add: clone_def get_update hasOwnProperty_update)
    next
      case False
      with g h show ?thesis by (simp add: clone_def remove_dot_prefix_id)
    qed
  qed
  have clone_no_domain: "\<not> hasOwnProperty cookie ''domain'' \<Longrightarrow> clone = cookie"
    by (auto simp: clone_def get_absent)
  have stored_get: "\<And>f. f \<noteq> ''name'' \<Longrightarrow> f \<noteq> ''expiry'' \<Longrightarrow> f \<noteq> ''0'' \<Longrightarrow>
      f \<noteq> ''creation'' \<Longrightarrow>
      get stored f = (if hasOwnProperty options f then get options f
                      else if f = ''key'' then get options ''name'' else JUndefined)"
    by (simp add: stored_def Cookie_new_def get_update get_cookie_options)
  have clone_eq: "get cookie ''domain'' = JStr s \<Longrightarrow>
      clone = AList.update ''domain'' (JStr (remove_dot_prefix s)) cookie"
  proof -
    assume g: "get cookie ''domain'' = JStr s"
    show ?thesis
    proof (cases "take 1 s = ''.''")
      case True
      with g show ?thesis by (simp add: clone_def)
    next
      case False
      from g have "map_of cookie ''domain'' = Some (JStr s)"
        by (simp add: get_def split: option.splits)
      then have "AList.update ''domain'' (JStr s) cookie = cookie"
        by (rule update_triv)
      with False show ?thesis by (simp add: clone_def remove_dot_prefix_id)
    qed
  qed
  have d1: "get cookie ''domain'' = JStr s \<longrightarrow>
           (\<exists>clone. cloneCookieWithoutDomainDotPrefix cookie = Inr clone
              \<and> get clone ''domain'' = JStr (remove_dot_prefix s)
              \<and> (\<forall>f. f \<noteq> ''domain'' \<longrightarrow>
                    get clone f = get cookie f
                    \<and> hasOwnProperty clone f = hasOwnProperty cookie f)
              \<and> isValidCookie clone
              \<and> stored = Cookie_new creation (cookie_options eng
                    (createCookieJarOptions clone (extractDomainFromUrl (url b)))))
           \<and> get stored ''domain'' = JStr (remove_dot_prefix s)"
  proof
    assume g: "get cookie ''domain'' = JStr s"
    have sd: "get stored ''domain'' = JStr (remove_dot_prefix s)"
      using clone_domain [OF g]
      by (simp add: stored_get options_def get_createCookieJarOptions
          hasOwnProperty_createCookieJarOptions)
    have c1: "cloneCookieWithoutDomainDotPrefix cookie = Inr clone"
      using g by (simp add: cloneCookieWithoutDomainDotPrefix_def clone_eq [OF g])
    have c2: "get clone ''domain'' = JStr (remove_dot_prefix s)"
      using clone_domain [OF g] by simp
    have c3: "\<forall>f. f \<noteq> ''domain'' \<longrightarrow>
                    get clone f = get cookie f
                    \<and> hasOwnProperty clone f = hasOwnProperty cookie f"
      using clone_other by simp
    have c5: "stored = Cookie_new creation (cookie_options eng
                    (createCookieJarOptions clone (extractDomainFromUrl (url b))))"
      unfolding stored_def options_def ..
    have "\<exists>clone. cloneCookieWithoutDomainDotPrefix cookie = Inr clone
              \<and> get clone ''domain'' = JStr (remove_dot_prefix s)
              \<and> (\<forall>f. f \<noteq> ''domain'' \<longrightarrow>
                    get clone f = get cookie f
                    \<and> hasOwnProperty clone f = hasOwnProperty cookie f)
              \<and> isValidCookie clone
              \<and> stored = Cookie_new creation (cookie_options eng
                    (createCookieJarOptions clone (extractDomainFromUrl (url b))))"
      by (rule exI [of _ clone]) (intro conjI c1 c2 c3 valid c5)
    then show "(\<exists>clone. cloneCookieWithoutDomainDotPrefix cookie = Inr clone
              \<and> get clone ''domain'' = JStr (remove_dot_prefix s)
              \<and> (\<forall>f. f \<noteq> ''domain'' \<longrightarrow>
                    get clone f = get cookie f
                    \<and> hasOwnProperty clone f = hasOwnProperty cookie f)
              \<and> isValidCookie clone
              \<and> stored = Cookie_new creation (cookie_options eng
                    (createCookieJarOptions clone (extractDomainFromUrl (url b)))))
           \<and> get stored ''domain'' = JStr (remove_dot_prefix s)"
      using sd by (intro conjI)
  qed
  have d2: "\<not> hasOwnProperty cookie ''domain'' \<longrightarrow>
           get stored ''domain'' = JStr (extractDomainFromUrl (url b))"
  proof
    assume n: "\<not> hasOwnProperty cookie ''domain''"
    then have c: "clone = cookie" using clone_no_domain by simp
    have "hasOwnProperty options ''domain''"
      by (simp add: options_def hasOwnProperty_createCookieJarOptions literal_object)
    then have "get stored ''domain'' = get options ''domain''"
      using stored_get [of "''domain''"] by simp
    also have "\<dots> = JStr (extractDomainFromUrl (url b))"
      using n by (simp add: options_def c get_createCookieJarOptions literal_object)
    finally show "get stored ''domain'' = JStr (extractDomainFromUrl (url b))" .
  qed
  have others: "\<forall>f. f \<notin> {''domain'', ''name'', ''expiry'', ''key'', ''0'', ''creation''} \<longrightarrow>
           get stored f
             = (if hasOwnProperty cookie f then get cookie f
                else get [(''path'', JStr ''/''), (''secure'', JBool False),
                          (''httpOnly'', JBool False)] f)"
  proof (intro allI impI)
    fix f :: string
    assume f: "f \<notin> {''domain'', ''name'', ''expiry'', ''key'', ''0'', ''creation''}"
    then have "get stored f = (if hasOwnProperty options f then get options f else JUndefined)"
      using stored_get [of f] by simp
    also have "\<dots> = get options f" by (simp add: get_absent)
    also have "\<dots> = (if hasOwnProperty cookie f then get cookie f
                else get [(''path'', JStr ''/''), (''secure'', JBool False),
                          (''httpOnly'', JBool False)] f)"
      using f clone_other [of f]
      by (simp add: options_def get_createCookieJarOptions literal_object)
    finally show "get stored f
             = (if hasOwnProperty cookie f then get cookie f
                else get [(''path'', JStr ''/''), (''secure'', JBool False),
                          (''httpOnly'', JBool False)] f)" .
  qed
  have key: "\<not> hasOwnProperty cookie ''key'' \<longrightarrow>
           get stored ''key'' = get cookie ''name''
           \<and> (\<exists>cs c. getCookies eng (Inr (putCookie (cookieJar b) stored)) = Inr cs
                \<and> c \<in> set cs
                \<and> get c ''name'' = get cookie ''name''
                \<and> get c ''domain'' = get stored ''domain'')"
  proof
    assume nk: "\<not> hasOwnProperty cookie ''key''"
    have "\<not> hasOwnProperty options ''key''"
      using nk clone_other [of "''key''"]
      by (simp add: options_def hasOwnProperty_createCookieJarOptions literal_object)
    then have "get stored ''key'' = get options ''name''"
      using stored_get [of "''key''"] by simp
    also have "\<dots> = get cookie ''name''"
      using name clone_other [of "''name''"]
      by (simp add: options_def get_createCookieJarOptions)
    finally have k: "get stored ''key'' = get cookie ''name''" .
    have hk: "hasOwnProperty stored ''key''" and hn: "\<not> hasOwnProperty stored ''name''"
      using hasOwnProperty_cookie_options [of eng options]
      by (simp_all add: stored_def Cookie_new_def hasOwnProperty_update)
    have "hasOwnProperty options ''domain''"
      by (simp add: options_def hasOwnProperty_createCookieJarOptions literal_object)
    then have "''domain'' \<in> set (map fst (AList.delete ''expiry'' (AList.delete ''name'' options)))"
      using hasOwnProperty_iff [of "AList.delete ''expiry'' (AList.delete ''name'' options)" "''domain''"]
      by (simp add: hasOwnProperty_delete)
    then have hd: "hasOwnProperty stored ''domain''"
      unfolding stored_def Cookie_new_def hasOwnProperty_update cookie_options_def Let_def
        hasOwnProperty_fold_update
      by simp
    obtain cs where cs: "getCookies eng (Inr (putCookie (cookieJar b) stored)) = Inr cs"
      and mem: "convert_cookie eng stored \<in> set cs"
      using getCookies_putCookie by blast
    have "get (convert_cookie eng stored) ''name'' = get cookie ''name''"
      using convert_cookie_name [OF hk hn] k by simp
    moreover have "get (convert_cookie eng stored) ''domain'' = get stored ''domain''"
      using convert_cookie_domain [OF hd] .
    ultimately show "get stored ''key'' = get cookie ''name''
           \<and> (\<exists>cs c. getCookies eng (Inr (putCookie (cookieJar b) stored)) = Inr cs
                \<and> c \<in> set cs
                \<and> get c ''name'' = get cookie ''name''
                \<and> get c ''domain'' = get stored ''domain'')"
      using k cs mem by blast
  qed
  show ?thesis
    by (rule exI [of _ stored]) (intro conjI run d1 d2 others key)
qed

text \<open>
  The example of the spec: after \<open>addCookie({name: "x", value: "y", domain:
  ".example.com"})\<close>, \<open>getCookies()\<close> lists a cookie with name \<open>x\<close> and domain
  \<open>example.com\<close>.
\<close>

lemma addCookie_domain_and_defaults_example:
  "window_open \<lparr>window_open = True, url = ''about:blank'', cookieJar = []\<rparr>
   \<and> isValidScheme (scheme_of (url \<lparr>window_open = True, url = ''about:blank'', cookieJar = []\<rparr>))
   \<and> isValidCookie [(''name'', JStr ''x''), (''value'', JStr ''y''),
                    (''domain'', JStr ''.example.com'')]
   \<and> (\<exists>b' cs c.
        addCookie \<lparr>defined = (\<lambda>name. False), Date_parse = (\<lambda>text. None), ToString = (\<lambda>v. [])\<rparr>
          (\<lambda>u. ''blank'') (JStr ''2020-01-01T00:00:00.000Z'')
          \<lparr>window_open = True, url = ''about:blank'', cookieJar = []\<rparr>
          [(''name'', JStr ''x''), (''value'', JStr ''y''), (''domain'', JStr ''.example.com'')]
          = Inr b'
        \<and> getCookies \<lparr>defined = (\<lambda>name. False), Date_parse = (\<lambda>text. None),
                       ToString = (\<lambda>v. [])\<rparr> (Inr (cookieJar b')) = Inr cs
        \<and> c \<in> set cs
        \<and> get c ''name'' = JStr ''x''
        \<and> get c ''domain'' = JStr ''example.com'')"
proof -
  let ?b = "\<lparr>window_open = True, url = ''about:blank'', cookieJar = []\<rparr>"
  let ?cookie = "[(''name'', JStr ''x''), (''value'', JStr ''y''),
                  (''domain'', JStr ''.example.com'')]"
  let ?eng = "\<lparr>defined = (\<lambda>name. False), Date_parse = (\<lambda>text. None), ToString = (\<lambda>v. [])\<rparr>"
  have w: "window_open ?b" by simp
  have sc: "isValidScheme (scheme_of (url ?b))"
    by (simp add: isValidScheme_def scheme_of_def)
  have v: "isValidCookie ?cookie"
    by (simp add: isValidCookie_def literal_object isValidName_def isValidValue_def
        isValidHttpOnly_def isValidSecure_def isValidExpiry_def)
  have gd: "get ?cookie ''domain'' = JStr ''.example.com''" by (simp add: literal_object)
  have gn: "get ?cookie ''name'' = JStr ''x''" by (simp add: literal_object)
  have nk: "\<not> hasOwnProperty ?cookie ''key''" by (simp add: literal_object)
  have d: "get ?cookie ''domain'' = JStr ''.example.com'' \<or> \<not> hasOwnProperty ?cookie ''domain''"
    using gd by simp
  from addCookie_domain_and_defaults [OF w sc v d,
      of ?eng "\<lambda>u. ''blank''" "JStr ''2020-01-01T00:00:00.000Z''"]
  obtain stored where st:
     "addCookie ?eng (\<lambda>u. ''blank'') (JStr ''2020-01-01T00:00:00.000Z'') ?b ?cookie
          = Inr (?b\<lparr>cookieJar := putCookie (cookieJar ?b) stored\<rparr>)
      \<and> (get ?cookie ''domain'' = JStr ''.example.com'' \<longrightarrow>
           (\<exists>clone. cloneCookieWithoutDomainDotPrefix ?cookie = Inr clone
              \<and> get clone ''domain'' = JStr (remove_dot_prefix ''.example.com'')
              \<and> (\<forall>f. f \<noteq> ''domain'' \<longrightarrow>
                    get clone f = get ?cookie f
                    \<and> hasOwnProperty clone f = hasOwnProperty ?cookie f)
              \<and> isValidCookie clone
              \<and> stored = Cookie_new (JStr ''2020-01-01T00:00:00.000Z'') (cookie_options ?eng
                    (createCookieJarOptions clone ((\<lambda>u. ''blank'') (url ?b)))))
           \<and> get stored ''domain'' = JStr (remove_dot_prefix ''.example.com''))
      \<and> (\<not> hasOwnProperty ?cookie ''domain'' \<longrightarrow>
           get stored ''domain'' = JStr ((\<lambda>u. ''blank'') (url ?b)))
      \<and> (\<forall>f. f \<notin> {''domain'', ''name'', ''expiry'', ''key'', ''0'', ''creation''} \<longrightarrow>
           get stored f
             = (if hasOwnProperty ?cookie f then get ?cookie f
                else get [(''path'', JStr ''/''), (''secure'', JBool False),
                          (''httpOnly'', JBool False)] f))
      \<and> (\<not> hasOwnProperty ?cookie ''key'' \<longrightarrow>
           get stored ''key'' = get ?cookie ''name''
           \<and> (\<exists>cs c. getCookies ?eng (Inr (putCookie (cookieJar ?b) stored)) = Inr cs
                \<and> c \<in> set cs
                \<and> get c ''name'' = get ?cookie ''name''
                \<and> get c ''domain'' = get stored ''domain''))" ..
  note a = st [THEN conjunct1]
  note sd = st [THEN conjunct2, THEN conjunct1]
  note rt = st [THEN conjunct2, THEN conjunct2, THEN conjunct2, THEN conjunct2]
  from rt nk have "\<exists>cs c. getCookies ?eng (Inr (putCookie (cookieJar ?b) stored)) = Inr cs
                \<and> c \<in> set cs
                \<and> get c ''name'' = get ?cookie ''name''
                \<and> get c ''domain'' = get stored ''domain''"
    by (elim impE conjE) assumption+
  then obtain cs c where gc:
    "getCookies ?eng (Inr (putCookie (cookieJar ?b) stored)) = Inr cs
                \<and> c \<in> set cs
                \<and> get c ''name'' = get ?cookie ''name''
                \<and> get c ''domain'' = get stored ''domain''"
    by (elim exE)
  note g = gc [THEN conjunct1]
  note c = gc [THEN conjunct2, THEN conjunct1] gc [THEN conjunct2, THEN conjunct2, THEN conjunct1]
    gc [THEN conjunct2, THEN conjunct2, THEN conjunct2]
  from sd gd have "get stored ''domain'' = JStr (remove_dot_prefix ''.example.com'')"
    by (elim impE conjE) assumption+
  then have "get stored ''domain'' = JStr ''example.com''" by simp
  with c(2,3) gn have c': "get c ''name'' = JStr ''x''" "get c ''domain'' = JStr ''example.com''"
    by simp_all
  have "\<exists>b' cs c.
        addCookie ?eng (\<lambda>u. ''blank'') (JStr ''2020-01-01T00:00:00.000Z'') ?b ?cookie = Inr b'
        \<and> getCookies ?eng (Inr (cookieJar b')) = Inr cs
        \<and> c \<in> set cs
        \<and> get c ''name'' = JStr ''x''
        \<and> get c ''domain'' = JStr ''example.com''"
  proof (intro exI conjI)
    show "addCookie ?eng (\<lambda>u. ''blank'') (JStr ''2020-01-01T00:00:00.000Z'') ?b ?cookie
            = Inr (?b\<lparr>cookieJar := putCookie (cookieJar ?b) stored\<rparr>)" by (rule a)
    show "getCookies ?eng (Inr (cookieJar (?b\<lparr>cookieJar := putCookie (cookieJar ?b) stored\<rparr>)))
            = Inr cs" using g by simp
    show "c \<in> set cs" by (rule c(1))
    show "get c ''name'' = JStr ''x''" by (rule c'(1))
    show "get c ''domain'' = JStr ''example.com''" by (rule c'(2))
  qed
  with w sc v show ?thesis by (intro conjI)
qed

lemma hasOwnProperty_cookie_options_iff:
  "hasOwnProperty (cookie_options eng options) f \<longleftrightarrow>
     f = ''key'' \<or> (f = ''0'' \<and> truthy (get options ''expiry''))
     \<or> (f \<noteq> ''name'' \<and> f \<noteq> ''expiry'' \<and> hasOwnProperty options f)"
proof -
  let ?rem = "AList.delete ''expiry'' (AList.delete ''name'' options)"
  have h: "f \<in> set (map fst ?rem) \<longleftrightarrow> f \<noteq> ''name'' \<and> f \<noteq> ''expiry'' \<and> hasOwnProperty options f"
    using hasOwnProperty_iff [of ?rem f] by (auto simp: hasOwnProperty_delete)
  show ?thesis
    unfolding cookie_options_def Let_def hasOwnProperty_fold_update h
    by (auto simp: literal_object)
qed

lemma get_cookie_options_0:
  assumes "\<not> hasOwnProperty options ''0''" and "truthy (get options ''expiry'')"
  shows "get (cookie_options eng options) ''0'' = JDate (new_Date eng (get options ''expiry''))"
proof -
  let ?rem = "AList.delete ''expiry'' (AList.delete ''name'' options)"
  have h: "''0'' \<notin> set (map fst ?rem)"
    using assms(1) hasOwnProperty_iff [of ?rem "''0''"] by (simp add: hasOwnProperty_delete)
  show ?thesis
    unfolding cookie_options_def Let_def get_fold_update
    using h assms(2) by (simp add: literal_object)
qed

lemma addCookie_writes:
  assumes "window_open b" and "isValidScheme (scheme_of (url b))" and "isValidCookie cookie"
    and "get cookie ''domain'' = JStr s \<or> \<not> hasOwnProperty cookie ''domain''"
  shows "addCookie eng extractDomainFromUrl creation b cookie
           = Inr (b\<lparr>cookieJar := putCookie (cookieJar b)
                (Cookie_new creation (cookie_options eng
                   (createCookieJarOptions
                      (if get cookie ''domain'' = JStr s \<and> take 1 s = ''.''
                       then AList.update ''domain'' (JStr (remove_dot_prefix s)) cookie
                       else cookie)
                      (extractDomainFromUrl (url b)))))\<rparr>)"
proof -
  define clone where
    "clone = (if get cookie ''domain'' = JStr s \<and> take 1 s = ''.''
              then AList.update ''domain'' (JStr (remove_dot_prefix s)) cookie else cookie)"
  have valid: "isValidCookie clone"
    using assms(3) by (simp add: clone_def isValidCookie_update_domain)
  have shallow: "(case isCookieDomainDotPrefixed cookie of
                    Inl e \<Rightarrow> Inl e
                  | Inr dotted \<Rightarrow>
                      if dotted then cloneCookieWithoutDomainDotPrefix cookie else Inr cookie)
                 = Inr clone"
  proof (cases "get cookie ''domain'' = JStr s")
    case True
    then show ?thesis
      by (simp add: isCookieDomainDotPrefixed_def cloneCookieWithoutDomainDotPrefix_def
          clone_def)
  next
    case False
    with assms(4) have "get cookie ''domain'' = JUndefined" by (simp add: get_absent)
    with False show ?thesis
      by (simp add: isCookieDomainDotPrefixed_def clone_def)
  qed
  show ?thesis
  proof (cases "isCookieDomainDotPrefixed cookie")
    case (Inl e)
    with shallow show ?thesis by simp
  next
    case (Inr dotted)
    with shallow valid assms(1,2) show ?thesis
      unfolding clone_def [symmetric] by (simp add: addCookie_def Let_def)
  qed
qed

text \<open>
  Claim C9 fails on the code. For every valid cookie that carries an expiry (and whose
  domain is a string, dot-prefixed or not, or absent), \<open>addCookie\<close> succeeds, and the
  cookie it writes to the jar has neither \<open>expiry\<close> nor \<open>expires\<close>: the array that
  holds the date is spread into the object handed to \<open>new Cookie\<close>, so the date is
  stored under the property \<open>0\<close>. The clone is not stored with all other fields
  unchanged.
\<close>

theorem addCookie_expiry_not_stored:
  assumes "window_open b" and "isValidScheme (scheme_of (url b))" and "isValidCookie cookie"
    and "get cookie ''domain'' = JStr s \<or> \<not> hasOwnProperty cookie ''domain''"
    and "truthy (get cookie ''expiry'')"
    and "\<not> hasOwnProperty cookie ''expires''" and "\<not> hasOwnProperty cookie ''0''"
  shows "\<exists>stored.
      addCookie eng extractDomainFromUrl creation b cookie
        = Inr (b\<lparr>cookieJar := putCookie (cookieJar b) stored\<rparr>)
      \<and> get cookie ''expiry'' \<noteq> JUndefined
      \<and> get stored ''expiry'' = JUndefined
      \<and> get stored ''expires'' = JUndefined
      \<and> get stored ''0'' = JDate (new_Date eng (get cookie ''expiry''))"
proof -
  define clone where
    "clone = (if get cookie ''domain'' = JStr s \<and> take 1 s = ''.''
              then AList.update ''domain'' (JStr (remove_dot_prefix s)) cookie else cookie)"
  define options where "options = createCookieJarOptions clone (extractDomainFromUrl (url b))"
  define stored where "stored = Cookie_new creation (cookie_options eng options)"
  have run: "addCookie eng extractDomainFromUrl creation b cookie
        = Inr (b\<lparr>cookieJar := putCookie (cookieJar b) stored\<rparr>)"
    unfolding stored_def options_def clone_def
    using addCookie_writes [OF assms(1-4)] .
  have clone_other: "\<And>f. f \<noteq> ''domain'' \<Longrightarrow>
      get clone f = get cookie f \<and> hasOwnProperty clone f = hasOwnProperty cookie f"
    by (simp add: clone_def get_update hasOwnProperty_update)
  have e: "get options ''expiry'' = get cookie ''expiry''"
    using clone_other [of "''expiry''"]
    by (simp add: options_def get_createCookieJarOptions literal_object get_absent)
  have n0: "\<not> hasOwnProperty options ''0''"
    using assms(7) clone_other [of "''0''"]
    by (simp add: options_def hasOwnProperty_createCookieJarOptions literal_object)
  have nx: "\<not> hasOwnProperty options ''expires''"
    using assms(6) clone_other [of "''expires''"]
    by (simp add: options_def hasOwnProperty_createCookieJarOptions literal_object)
  have t: "truthy (get options ''expiry'')" using assms(5) e by simp
  have s1: "\<not> hasOwnProperty stored ''expiry''"
    by (simp add: stored_def Cookie_new_def hasOwnProperty_update
        hasOwnProperty_cookie_options_iff)
  have s2: "\<not> hasOwnProperty stored ''expires''"
    using nx by (simp add: stored_def Cookie_new_def hasOwnProperty_update
        hasOwnProperty_cookie_options_iff)
  have s3: "get stored ''0'' = JDate (new_Date eng (get cookie ''expiry''))"
    using get_cookie_options_0 [OF n0 t, of eng] e
    by (simp add: stored_def Cookie_new_def get_update)
  have d: "get cookie ''expiry'' \<noteq> JUndefined" using assms(5) by auto
  show ?thesis
    by (rule exI [of _ stored])
       (intro conjI run d get_absent [OF s1] get_absent [OF s2] s3)
qed

text \<open>
  A valid cookie with the domain \<open>.example.com\<close> and an expiry: the stored cookie has
  the domain \<open>example.com\<close>, the date under \<open>0\<close>, and no expiry.
\<close>

theorem addCookie_expiry_not_stored_witness:
  "addCookie \<lparr>defined = (\<lambda>name. False), Date_parse = (\<lambda>text. None), ToString = (\<lambda>v. [])\<rparr>
     (\<lambda>u. ''blank'') (JStr ''2020-01-01T00:00:00.000Z'')
     \<lparr>window_open = True, url = ''about:blank'', cookieJar = []\<rparr>
     [(''name'', JStr ''x''), (''value'', JStr ''y''), (''domain'', JStr ''.example.com''),
      (''expiry'', JNum 1893456000)]
   = Inr \<lparr>window_open = True, url = ''about:blank'',
          cookieJar =
            [[(''key'', JStr ''x''), (''0'', JDate (Some 1893456000)),
              (''domain'', JStr ''example.com''), (''path'', JStr ''/''),
              (''secure'', JBool False), (''httpOnly'', JBool False),
              (''value'', JStr ''y''), (''creation'', JStr ''2020-01-01T00:00:00.000Z'')]]\<rparr>"
proof -
  let ?b = "\<lparr>window_open = True, url = ''about:blank'', cookieJar = []\<rparr>"
  let ?cookie = "[(''name'', JStr ''x''), (''value'', JStr ''y''),
                  (''domain'', JStr ''.example.com''), (''expiry'', JNum 1893456000)]"
  let ?eng = "\<lparr>defined = (\<lambda>name. False), Date_parse = (\<lambda>text. None), ToString = (\<lambda>v. [])\<rparr>"
  have w: "window_open ?b" by simp
  have sc: "isValidScheme (scheme_of (url ?b))"
    by (simp add: isValidScheme_def scheme_of_def)
  have v: "isValidCookie ?cookie"
    by (simp add: isValidCookie_def literal_object isValidName_def isValidValue_def
        isValidHttpOnly_def isValidSecure_def isValidExpiry_def MAX_SAFE_INTEGER_def)
  have v': "isValidCookie [(''name'', JStr ''x''), (''value'', JStr ''y''),
                  (''domain'', JStr ''example.com''), (''expiry'', JNum 1893456000)]"
    by (simp add: isValidCookie_def literal_object isValidName_def isValidValue_def
        isValidHttpOnly_def isValidSecure_def isValidExpiry_def MAX_SAFE_INTEGER_def)
  have d: "get ?cookie ''domain'' = JStr ''.example.com'' \<or> \<not> hasOwnProperty ?cookie ''domain''"
    by (simp add: literal_object)
  have t: "truthy (get ?cookie ''expiry'')" by (simp add: literal_object)
  have nx: "\<not> hasOwnProperty ?cookie ''expires''" by (simp add: literal_object)
  have n0: "\<not> hasOwnProperty ?cookie ''0''" by (simp add: literal_object)
  from addCookie_expiry_not_stored [OF w sc v d t nx n0,
      of ?eng "\<lambda>u. ''blank''" "JStr ''2020-01-01T00:00:00.000Z''"]
  obtain stored where st:
    "addCookie ?eng (\<lambda>u. ''blank'') (JStr ''2020-01-01T00:00:00.000Z'') ?b ?cookie
        = Inr (?b\<lparr>cookieJar := putCookie (cookieJar ?b) stored\<rparr>)
      \<and> get ?cookie ''expiry'' \<noteq> JUndefined
      \<and> get stored ''expiry'' = JUndefined
      \<and> get stored ''expires'' = JUndefined
      \<and> get stored ''0'' = JDate (new_Date ?eng (get ?cookie ''expiry''))" ..
  have "addCookie ?eng (\<lambda>u. ''blank'') (JStr ''2020-01-01T00:00:00.000Z'') ?b ?cookie
      = Inr \<lparr>window_open = True, url = ''about:blank'',
          cookieJar =
            [[(''key'', JStr ''x''), (''0'', JDate (Some 1893456000)),
              (''domain'', JStr ''example.com''), (''path'', JStr ''/''),
              (''secure'', JBool False), (''httpOnly'', JBool False),
              (''value'', JStr ''y''), (''creation'', JStr ''2020-01-01T00:00:00.000Z'')]]\<rparr>"
    using v'
    by (simp add: addCookie_def Let_def isValidScheme_def scheme_of_def
        isCookieDomainDotPrefixed_def cloneCookieWithoutDomainDotPrefix_def get_def
        isValidCookie_update_domain putCookie_def Cookie_new_def cookie_options_def
        createCookieJarOptions_def time_clip_def truncate_rat_def)
  with st show ?thesis by simp
qed

end
